theory Spec2Isabelle
  imports Complex_Main
begin

section \<open>The prediction service of ml-real-estate-app/app.py\<close>

text \<open>
  The theory embeds the request handlers \<open>predict_house\<close>, \<open>predict_loan\<close>,
  \<open>download_report\<close> and \<open>dashboard\<close> of \<^verbatim>\<open>app.py\<close>, together with the
  \<open>Prediction\<close> table and the two module-level model variables they share.

  Python strings are \<open>string\<close>s holding their UTF-8 bytes, so a character outside ASCII
  is written as its bytes. Python floats are the values of a type variable \<open>'f\<close>: the
  handlers never calculate with them, they only parse, compare with \<open>1\<close>, print and hand
  them to the model, and each of these is a function of the record \<open>pyrt\<close> below. The
  theorems hold for every such record. The float column \<open>confidence\<close>, which only ever
  receives the literal \<open>94.2\<close>, is held as the number that literal denotes.

  The column \<open>id\<close> of \<open>User\<close> is the field \<open>id_u\<close>, that of \<open>Prediction\<close> the field
  \<open>id_p\<close>. The routes of \<^verbatim>\<open>app.py\<close> that are not embedded (the landing, login,
  registration, logout and policy pages, the calculator and the two form pages) neither
  read nor write \<open>Prediction\<close> or the model variables.
\<close>

subsection \<open>Python values and exceptions\<close>

datatype exn =
    BadRequestKeyError string
  | ValueError string
  | IndexError
  | RaisedError string

text \<open>
  \<open>BadRequestKeyError k\<close>: \<open>request.form[k]\<close> when the form has no key \<open>k\<close>.
  \<open>ValueError s\<close>: \<open>float(s)\<close> when \<open>s\<close> is not a number; \<open>float\<close> is given the raw
  string alone. \<open>IndexError\<close>: \<open>prediction[0]\<close> on an empty result.
  \<open>RaisedError msg\<close>: any exception raised inside \<open>joblib.load\<close> or \<open>model.predict\<close>.
\<close>

datatype 'f pynum = PyFloat 'f | PyInt int

datatype 'f jval = JFloat 'f | JStr string

record 'f pyrt =
  float_py :: "string \<Rightarrow> 'f option"
  float_of_int :: "int \<Rightarrow> 'f"
  str_exn :: "exn \<Rightarrow> string"
  format_2f :: "'f pynum \<Rightarrow> string"
  json_float :: "'f \<Rightarrow> string"
  json_string :: "string \<Rightarrow> string"
  json_items :: "string \<Rightarrow> exn + (string \<times> string) list"
  str_float :: "real \<Rightarrow> string"

text \<open>
  \<open>float_py s\<close> is \<open>float(s)\<close>, \<open>None\<close> when it raises ValueError;
  \<open>float_of_int\<close> is the conversion \<open>np.array\<close> applies to a Python int among floats;
  \<open>str_exn e\<close> is \<open>str(e)\<close>; \<open>format_2f x\<close> is \<open>format(x, ',.2f')\<close>;
  \<open>json_float\<close> and \<open>json_string\<close> are how \<open>json.dumps\<close> writes a float and a string;
  \<open>json_items t\<close> is \<open>json.loads(t).items()\<close> with every value formatted as in an
  f-string, or the exception either step raises; \<open>str_float\<close> prints the float
  column \<open>confidence\<close>.
\<close>

type_synonym form = "(string \<times> string) list"

text \<open>\<open>request.form[k]\<close>: the first value submitted under \<open>k\<close>, or the key error.\<close>

definition form_get :: "form \<Rightarrow> string \<Rightarrow> exn + string" where
  "form_get frm k = (case map_of frm k of None \<Rightarrow> Inl (BadRequestKeyError k) | Some v \<Rightarrow> Inr v)"

text \<open>\<open>float(request.form[k])\<close>.\<close>

definition float_field :: "'f pyrt \<Rightarrow> form \<Rightarrow> string \<Rightarrow> exn + 'f" where
  "float_field rt frm k =
     (case form_get frm k of
        Inl e \<Rightarrow> Inl e
      | Inr s \<Rightarrow> (case float_py rt s of None \<Rightarrow> Inl (ValueError s) | Some x \<Rightarrow> Inr x))"

text \<open>Sequencing inside a \<open>try\<close> block: the first exception ends the block.\<close>

definition and_then :: "exn + 'a \<Rightarrow> ('a \<Rightarrow> exn + 'b) \<Rightarrow> exn + 'b" where
  "and_then r f = (case r of Inl e \<Rightarrow> Inl e | Inr x \<Rightarrow> f x)"

subsection \<open>The loan request: \<open>data\<close> and \<open>features\<close> (app.py, lines 285 to 303)\<close>

record 'f loan_data =
  applicant_income :: 'f
  coapplicant_income :: 'f
  loan_amount :: 'f
  loan_term :: 'f
  credit_history :: 'f
  property_area :: string
  married :: string
  education :: string

definition loan_data :: "'f pyrt \<Rightarrow> form \<Rightarrow> exn + 'f loan_data" where
  "loan_data rt frm =
     and_then (float_field rt frm ''applicant_income'') (\<lambda>ai.
     and_then (float_field rt frm ''coapplicant_income'') (\<lambda>ci.
     and_then (float_field rt frm ''loan_amount'') (\<lambda>la.
     and_then (float_field rt frm ''loan_term'') (\<lambda>lt.
     and_then (float_field rt frm ''credit_history'') (\<lambda>ch.
     and_then (form_get frm ''property_area'') (\<lambda>pa.
     and_then (form_get frm ''married'') (\<lambda>ma.
     and_then (form_get frm ''education'') (\<lambda>ed.
       Inr \<lparr>applicant_income = ai, coapplicant_income = ci, loan_amount = la,
            loan_term = lt, credit_history = ch, property_area = pa,
            married = ma, education = ed\<rparr>))))))))"

definition area_map :: "(string \<times> int) list" where
  "area_map = [(''Urban'', 0), (''Semiurban'', 1), (''Rural'', 2)]"

text \<open>\<open>d.get(k, default)\<close> on a dict written as an association list.\<close>

definition dict_get :: "('k \<times> 'v) list \<Rightarrow> 'k \<Rightarrow> 'v \<Rightarrow> 'v" where
  "dict_get d k dflt = (case map_of d k of None \<Rightarrow> dflt | Some v \<Rightarrow> v)"

definition loan_features :: "'f loan_data \<Rightarrow> 'f pynum list" where
  "loan_features d =
     [PyFloat (applicant_income d), PyFloat (coapplicant_income d), PyFloat (loan_amount d),
      PyFloat (loan_term d), PyFloat (credit_history d),
      PyInt (dict_get area_map (property_area d) 0),
      PyInt (if married d = ''Yes'' then 1 else 0),
      PyInt (if education d = ''Graduate'' then 1 else 0)]"

subsection \<open>The house request: \<open>data\<close> (app.py, lines 235 to 245)\<close>

record 'f house_data =
  bedrooms :: 'f
  bathrooms :: 'f
  flat_area :: 'f
  lot_area :: 'f
  condition :: 'f
  grade :: 'f
  zipcode :: 'f

definition house_data :: "'f pyrt \<Rightarrow> form \<Rightarrow> exn + 'f house_data" where
  "house_data rt frm =
     and_then (float_field rt frm ''bedrooms'') (\<lambda>be.
     and_then (float_field rt frm ''bathrooms'') (\<lambda>ba.
     and_then (float_field rt frm ''flat_area'') (\<lambda>fa.
     and_then (float_field rt frm ''lot_area'') (\<lambda>la.
     and_then (float_field rt frm ''condition'') (\<lambda>co.
     and_then (float_field rt frm ''grade'') (\<lambda>gr.
     and_then (float_field rt frm ''zipcode'') (\<lambda>zi.
       Inr \<lparr>bedrooms = be, bathrooms = ba, flat_area = fa, lot_area = la,
            condition = co, grade = gr, zipcode = zi\<rparr>)))))))"

text \<open>\<open>data.items()\<close> of either dict, in insertion order.\<close>

definition house_items :: "'f house_data \<Rightarrow> (string \<times> 'f jval) list" where
  "house_items d =
     [(''bedrooms'', JFloat (bedrooms d)), (''bathrooms'', JFloat (bathrooms d)),
      (''flat_area'', JFloat (flat_area d)), (''lot_area'', JFloat (lot_area d)),
      (''condition'', JFloat (condition d)), (''grade'', JFloat (grade d)),
      (''zipcode'', JFloat (zipcode d))]"

definition loan_items :: "'f loan_data \<Rightarrow> (string \<times> 'f jval) list" where
  "loan_items d =
     [(''applicant_income'', JFloat (applicant_income d)),
      (''coapplicant_income'', JFloat (coapplicant_income d)),
      (''loan_amount'', JFloat (loan_amount d)), (''loan_term'', JFloat (loan_term d)),
      (''credit_history'', JFloat (credit_history d)),
      (''property_area'', JStr (property_area d)), (''married'', JStr (married d)),
      (''education'', JStr (education d))]"

text \<open>\<open>list(data.values())\<close> of the house dict.\<close>

definition house_values :: "'f house_data \<Rightarrow> 'f list" where
  "house_values d =
     [bedrooms d, bathrooms d, flat_area d, lot_area d, condition d, grade d, zipcode d]"

text \<open>\<open>np.array(features)\<close>: a list of floats and ints becomes an array of floats.\<close>

definition np_array :: "'f pyrt \<Rightarrow> 'f pynum list \<Rightarrow> 'f list" where
  "np_array rt xs = map (\<lambda>x. case x of PyFloat v \<Rightarrow> v | PyInt n \<Rightarrow> float_of_int rt n) xs"

subsection \<open>\<open>json.dumps\<close> of a dict of floats and strings\<close>

fun join :: "string \<Rightarrow> string list \<Rightarrow> string" where
  "join sep [] = []"
| "join sep [x] = x"
| "join sep (x # y # ys) = x @ sep @ join sep (y # ys)"

definition json_value :: "'f pyrt \<Rightarrow> 'f jval \<Rightarrow> string" where
  "json_value rt v = (case v of JFloat x \<Rightarrow> json_float rt x | JStr s \<Rightarrow> json_string rt s)"

definition json_dumps :: "'f pyrt \<Rightarrow> (string \<times> 'f jval) list \<Rightarrow> string" where
  "json_dumps rt items =
     ''{'' @ join '', '' (map (\<lambda>(k, v). json_string rt k @ '': '' @ json_value rt v) items) @ ''}''"

subsection \<open>Model artifacts and \<open>load_model\<close> (app.py, lines 55 to 66)\<close>

text \<open>
  A model is what \<open>predict\<close> does with the single row it is given: it raises, or returns
  the array of predictions. A path of the file system holds nothing, a file that
  \<open>joblib.load\<close> fails on, or a pickled model.
\<close>

type_synonym 'f model = "'f list \<Rightarrow> exn + 'f pynum list"

datatype 'f artifact = Absent | Corrupt exn | Pickle "'f model"

type_synonym 'f storage = "string \<Rightarrow> 'f artifact"

definition HOUSE_MODEL_PATH :: string where
  "HOUSE_MODEL_PATH = ''models/house_price_model.pkl''"

definition LOAN_MODEL_PATH :: string where
  "LOAN_MODEL_PATH = ''models/loan_eligibility_model.pkl''"

definition load_model :: "'f storage \<Rightarrow> string \<Rightarrow> exn + 'f model option" where
  "load_model fs path =
     (case fs path of Absent \<Rightarrow> Inr None | Corrupt e \<Rightarrow> Inl e | Pickle m \<Rightarrow> Inr (Some m))"

subsection \<open>The tables \<open>User\<close> and \<open>Prediction\<close> (app.py, lines 27 to 49)\<close>

record user =
  id_u :: nat
  username :: string
  email :: string
  password_hash :: string
  full_name :: string

text \<open>A \<open>datetime\<close> value, as Python holds it: its calendar fields.\<close>

record datetime =
  year :: nat
  month :: nat
  day :: nat
  hour :: nat
  minute :: nat
  second :: nat
  microsecond :: nat

text \<open>
  The order of two datetimes is the order of their fields, first to last; on valid
  datetimes (month 1 to 12, day 1 to 31, hour below 24, minute and second below 60,
  microsecond below a million) this number has the same order.
\<close>

definition datetime_key :: "datetime \<Rightarrow> nat" where
  "datetime_key t =
     ((((((year t * 12 + (month t - 1)) * 31 + (day t - 1)) * 24 + hour t) * 60 + minute t)
        * 60 + second t) * 1000000 + microsecond t)"

record prediction =
  id_p :: nat
  type :: string
  input_json :: string
  result_text :: string
  confidence :: real
  timestamp :: datetime
  user_id :: nat

text \<open>
  The state the handlers share: the module variables \<open>house_model\<close> and \<open>loan_model\<close>
  (\<open>None\<close> until a load succeeds) and the rows of \<open>Prediction\<close> in insertion order.
\<close>

record 'f state =
  house_model :: "'f model option"
  loan_model :: "'f model option"
  predictions :: "prediction list"

text \<open>The integer primary key: one more than the largest key in the table.\<close>

definition next_id :: "prediction list \<Rightarrow> nat" where
  "next_id ps = Suc (fold max (map id_p ps) 0)"

text \<open>
  \<open>Prediction(type=..., input_json=..., result_text=..., user_id=...)\<close> followed by
  \<open>db.session.add\<close> and \<open>db.session.commit\<close>. The caller may pass \<open>confidence\<close>; a
  column left out takes its declared default on insert: \<open>94.2\<close> for \<open>confidence\<close>,
  \<open>datetime.utcnow()\<close> (the argument \<open>now\<close>) for \<open>timestamp\<close>. The write itself is taken
  to succeed.
\<close>

definition add_prediction ::
  "datetime \<Rightarrow> string \<Rightarrow> string \<Rightarrow> string \<Rightarrow> real option \<Rightarrow> nat \<Rightarrow> prediction list
     \<Rightarrow> prediction \<times> prediction list" where
  "add_prediction now ty inp res conf uid ps =
     (let pred_entry =
        \<lparr>id_p = next_id ps, type = ty, input_json = inp, result_text = res,
         confidence = (case conf of None \<Rightarrow> 94.2 | Some c \<Rightarrow> c),
         timestamp = now, user_id = uid\<rparr>
      in (pred_entry, ps @ [pred_entry]))"

text \<open>\<open>Prediction.query.get(i)\<close>.\<close>

definition query_get :: "prediction list \<Rightarrow> nat \<Rightarrow> prediction option" where
  "query_get ps i = find (\<lambda>p. id_p p = i) ps"

subsection \<open>Responses\<close>

record explain_factor =
  factor :: string
  impact :: string
  desc :: string

datatype canvas_op =
    SetFont string nat
  | DrawString int int string
  | Line int int int int
  | SetFillColorRGB real real real
  | SetFillColor string
  | ShowPage
  | Save

text \<open>
  What a handler returns: the redirect of \<open>login_required\<close> for a visitor who is not
  logged in; \<open>result.html\<close> with \<open>error=\<close>; \<open>result.html\<close> with \<open>prediction_text\<close>,
  \<open>title\<close>, \<open>type\<close>, \<open>explain\<close> and \<open>pred_id\<close>; the abort of \<open>get_or_404\<close>; a body with
  its status code; \<open>send_file\<close> of the canvas (the calls made on it, in order) under
  its download name; \<open>dashboard.html\<close>; an exception no handler caught.
\<close>

datatype response =
    Redirect string
  | Result_error string
  | Result_page string string string "explain_factor list" nat
  | Abort nat
  | Body string nat
  | Send_file "canvas_op list" string
  | Dashboard_page string "prediction list"
  | Uncaught exn

subsection \<open>\<open>predict_house\<close> (app.py, lines 225 to 273)\<close>

definition house_explain :: "explain_factor list" where
  "house_explain =
     [\<lparr>factor = ''Location (Zipcode)'', impact = ''High'',
       desc = ''Zipcode is a primary driver of market value in our current model.''\<rparr>,
      \<lparr>factor = ''Space (Sqft)'', impact = ''Medium'',
       desc = ''Flat area directly correlates with the predicted appraisal.''\<rparr>,
      \<lparr>factor = ''State (Condition)'', impact = ''Moderate'',
       desc = ''Overall property maintenance level affected the final number.''\<rparr>]"

text \<open>\<open>prediction[0]\<close>.\<close>

definition subscript0 :: "'a list \<Rightarrow> exn + 'a" where
  "subscript0 xs = (case xs of [] \<Rightarrow> Inl IndexError | x # _ \<Rightarrow> Inr x)"

text \<open>The body of the \<open>try\<close> block, run with the model \<open>m\<close> on the table \<open>ps\<close>.\<close>

definition house_try ::
  "'f pyrt \<Rightarrow> datetime \<Rightarrow> user \<Rightarrow> form \<Rightarrow> 'f model \<Rightarrow> prediction list
     \<Rightarrow> exn + response \<times> prediction list" where
  "house_try rt now cu frm m ps =
     and_then (house_data rt frm) (\<lambda>data.
     and_then (m (house_values data)) (\<lambda>prediction.
     and_then (subscript0 prediction) (\<lambda>p0.
       let output = ''$'' @ format_2f rt p0;
           (pred_entry, ps') =
              add_prediction now ''house'' (json_dumps rt (house_items data)) output None
                (id_u cu) ps
       in Inr (Result_page output ''Real Estate Appraisal'' ''house'' house_explain
                 (id_p pred_entry), ps'))))"

definition house_request ::
  "'f pyrt \<Rightarrow> datetime \<Rightarrow> user \<Rightarrow> form \<Rightarrow> 'f model \<Rightarrow> 'f state \<Rightarrow> response \<times> 'f state" where
  "house_request rt now cu frm m st =
     (case house_try rt now cu frm m (predictions st) of
        Inl e \<Rightarrow> (Result_error (''Data processing error: '' @ str_exn rt e), st)
      | Inr (resp, ps') \<Rightarrow> (resp, st\<lparr>predictions := ps'\<rparr>))"

definition predict_house ::
  "'f pyrt \<Rightarrow> 'f storage \<Rightarrow> datetime \<Rightarrow> user option \<Rightarrow> form \<Rightarrow> 'f state \<Rightarrow> response \<times> 'f state" where
  "predict_house rt fs now current_user frm st =
     (case current_user of
        None \<Rightarrow> (Redirect ''login'', st)
      | Some cu \<Rightarrow>
          (case house_model st of
             None \<Rightarrow>
               (case load_model fs HOUSE_MODEL_PATH of
                  Inl e \<Rightarrow> (Uncaught e, st)
                | Inr None \<Rightarrow>
                    (Result_error
                       ''System Upgrade in Progress: House Model currently offline.'', st)
                | Inr (Some m) \<Rightarrow> house_request rt now cu frm m (st\<lparr>house_model := Some m\<rparr>))
           | Some m \<Rightarrow> house_request rt now cu frm m st))"

subsection \<open>\<open>predict_loan\<close> (app.py, lines 275 to 333)\<close>

definition loan_explain :: "explain_factor list" where
  "loan_explain =
     [\<lparr>factor = ''Credit History'', impact = ''Critical'',
       desc = ''Historical repayment behavior is the strongest predictor for this outcome.''\<rparr>,
      \<lparr>factor = ''Income-to-Debt'', impact = ''High'',
       desc = ''The ratio between your total income and requested loan amount was analyzed.''\<rparr>,
      \<lparr>factor = ''Education Level'', impact = ''Minor'',
       desc = ''Academic background contributes slightly to financial stability scoring.''\<rparr>]"

text \<open>The two labels end in U+2705 and U+274C, written as their UTF-8 bytes.\<close>

definition approved_label :: string where
  "approved_label = ''Approved '' @ [CHR 0xE2, CHR 0x9C, CHR 0x85]"

definition flagged_label :: string where
  "flagged_label = ''Flagged for Review '' @ [CHR 0xE2, CHR 0x9D, CHR 0x8C]"

text \<open>\<open>x == 1\<close> for a number \<open>x\<close>: a float equals \<open>1\<close> when it is the float \<open>1.0\<close>.\<close>

definition equals_one :: "'f pyrt \<Rightarrow> 'f pynum \<Rightarrow> bool" where
  "equals_one rt x = (case x of PyInt n \<Rightarrow> n = 1 | PyFloat v \<Rightarrow> v = float_of_int rt 1)"

definition loan_try ::
  "'f pyrt \<Rightarrow> datetime \<Rightarrow> user \<Rightarrow> form \<Rightarrow> 'f model \<Rightarrow> prediction list
     \<Rightarrow> exn + response \<times> prediction list" where
  "loan_try rt now cu frm m ps =
     and_then (loan_data rt frm) (\<lambda>data.
     and_then (m (np_array rt (loan_features data))) (\<lambda>prediction.
     and_then (subscript0 prediction) (\<lambda>p0.
       let result = (if equals_one rt p0 then approved_label else flagged_label);
           (pred_entry, ps') =
              add_prediction now ''loan'' (json_dumps rt (loan_items data)) result None
                (id_u cu) ps
       in Inr (Result_page result ''Loan Eligibility Analysis'' ''loan'' loan_explain
                 (id_p pred_entry), ps'))))"

definition loan_request ::
  "'f pyrt \<Rightarrow> datetime \<Rightarrow> user \<Rightarrow> form \<Rightarrow> 'f model \<Rightarrow> 'f state \<Rightarrow> response \<times> 'f state" where
  "loan_request rt now cu frm m st =
     (case loan_try rt now cu frm m (predictions st) of
        Inl e \<Rightarrow> (Result_error (''Analysis engine error: '' @ str_exn rt e), st)
      | Inr (resp, ps') \<Rightarrow> (resp, st\<lparr>predictions := ps'\<rparr>))"

definition predict_loan ::
  "'f pyrt \<Rightarrow> 'f storage \<Rightarrow> datetime \<Rightarrow> user option \<Rightarrow> form \<Rightarrow> 'f state \<Rightarrow> response \<times> 'f state" where
  "predict_loan rt fs now current_user frm st =
     (case current_user of
        None \<Rightarrow> (Redirect ''login'', st)
      | Some cu \<Rightarrow>
          (case loan_model st of
             None \<Rightarrow>
               (case load_model fs LOAN_MODEL_PATH of
                  Inl e \<Rightarrow> (Uncaught e, st)
                | Inr None \<Rightarrow>
                    (Result_error
                       ''System Upgrade in Progress: Loan Engine currently offline.'', st)
                | Inr (Some m) \<Rightarrow> loan_request rt now cu frm m (st\<lparr>loan_model := Some m\<rparr>))
           | Some m \<Rightarrow> loan_request rt now cu frm m st))"

subsection \<open>\<open>download_report\<close> (app.py, lines 158 to 213)\<close>

text \<open>Decimal digits of a number, and \<open>f"{n:04d}"\<close>.\<close>

fun digits :: "nat \<Rightarrow> string" where
  "digits n =
     (if n < 10 then [''0123456789'' ! n] else digits (n div 10) @ [''0123456789'' ! (n mod 10)])"

declare digits.simps [simp del]

definition format_04d :: "nat \<Rightarrow> string" where
  "format_04d n = replicate (4 - length (digits n)) CHR ''0'' @ digits n"

text \<open>\<open>t.strftime('%Y-%m-%d %H:%M:%S')\<close>: the fields, zero-padded.\<close>

definition format_02d :: "nat \<Rightarrow> string" where
  "format_02d n = replicate (2 - length (digits n)) CHR ''0'' @ digits n"

definition strftime :: "datetime \<Rightarrow> string" where
  "strftime t =
     format_04d (year t) @ ''-'' @ format_02d (month t) @ ''-'' @ format_02d (day t) @ '' '' @
     format_02d (hour t) @ '':'' @ format_02d (minute t) @ '':'' @ format_02d (second t)"

text \<open>
  \<open>s.title()\<close> and \<open>s.replace('_', ' ')\<close> on ASCII text: a letter that follows a letter is
  lowered, any other letter is raised. Bytes outside ASCII are left as they are.
\<close>

definition is_lower :: "char \<Rightarrow> bool" where
  "is_lower c = (97 \<le> (of_char c :: nat) \<and> (of_char c :: nat) \<le> 122)"

definition is_upper :: "char \<Rightarrow> bool" where
  "is_upper c = (65 \<le> (of_char c :: nat) \<and> (of_char c :: nat) \<le> 90)"

fun title_from :: "bool \<Rightarrow> string \<Rightarrow> string" where
  "title_from prev [] = []"
| "title_from prev (c # cs) =
     (if is_lower c then
        (if prev then c else char_of ((of_char c :: nat) - 32)) # title_from True cs
      else if is_upper c then
        (if prev then char_of ((of_char c :: nat) + 32) else c) # title_from True cs
      else c # title_from False cs)"

definition title :: "string \<Rightarrow> string" where
  "title s = title_from False s"

definition replace_underscore :: "string \<Rightarrow> string" where
  "replace_underscore s = map (\<lambda>c. if c = CHR ''_'' then CHR '' '' else c) s"

text \<open>The loop over \<open>inputs.items()\<close>: the lines drawn and the value of \<open>y\<close> after it.\<close>

fun input_lines :: "int \<Rightarrow> (string \<times> string) list \<Rightarrow> canvas_op list \<times> int" where
  "input_lines y [] = ([], y)"
| "input_lines y ((key, val) # rest) =
     (let (ops, y') = input_lines (y - 15) rest
      in (DrawString 120 y (''- '' @ title (replace_underscore key) @ '': '' @ val) # ops, y'))"

definition report_canvas :: "'f pyrt \<Rightarrow> prediction \<Rightarrow> string \<Rightarrow> exn + canvas_op list" where
  "report_canvas rt pred client =
     and_then (json_items rt (input_json pred)) (\<lambda>inputs.
       let (lines, y1) = input_lines (600 - 20) inputs;
           y2 = y1 - 25;
           y3 = y2 - 30
       in Inr
         ([SetFont ''Helvetica-Bold'' 24,
           DrawString 100 750 ''TrustBridge Bank'',
           SetFont ''Helvetica'' 12,
           DrawString 100 735 ''Official Financial Analysis Report'',
           Line 100 730 500 730,
           SetFont ''Helvetica-Bold'' 12,
           DrawString 100 700 (''Report ID: TB-'' @ format_04d (id_p pred)),
           DrawString 100 685 (''Date: '' @ strftime (timestamp pred)),
           DrawString 100 670 (''Client Name: '' @ client),
           SetFont ''Helvetica-Bold'' 14,
           DrawString 100 630 (''Analysis Type: '' @ title (type pred) @ '' Prediction''),
           SetFont ''Helvetica'' 12,
           DrawString 100 600 ''Input Parameters:'']
          @ lines @
          [SetFont ''Helvetica-Bold'' 16,
           SetFillColorRGB 0.06 0.09 0.16,
           DrawString 100 y2 (''FINAL DETERMINATION: '' @ result_text pred),
           SetFont ''Helvetica-Oblique'' 12,
           SetFillColor ''black'',
           DrawString 100 y3
             (''Analytical Confidence: '' @ str_float rt (confidence pred) @ ''%''),
           SetFont ''Helvetica'' 8,
           DrawString 100 50
             (''DISCLAIMER: This report is for advisory purposes only. ''
              @ ''Not a formal financial commitment.''),
           DrawString 100 40
             (''TrustBridge Bank '' @ [CHR 0xC2, CHR 0xA9] @ '' 2026. All Rights Reserved.''),
           ShowPage,
           Save]))"

definition download_report ::
  "'f pyrt \<Rightarrow> user option \<Rightarrow> nat \<Rightarrow> 'f state \<Rightarrow> response" where
  "download_report rt current_user prediction_id st =
     (case current_user of
        None \<Rightarrow> Redirect ''login''
      | Some cu \<Rightarrow>
          (case query_get (predictions st) prediction_id of
             None \<Rightarrow> Abort 404
           | Some pred \<Rightarrow>
               if user_id pred \<noteq> id_u cu then Body ''Unauthorized'' 403
               else
                 (case report_canvas rt pred (full_name cu) of
                    Inl e \<Rightarrow> Uncaught e
                  | Inr ops \<Rightarrow>
                      Send_file ops (''TrustBridge_Report_'' @ digits (id_p pred) @ ''.pdf''))))"

subsection \<open>\<open>dashboard\<close> (app.py, lines 127 to 131)\<close>

text \<open>
  The five latest rows of the user. Rows with equal timestamps come in an order the
  database chooses; here the later insertion comes first.
\<close>

definition history :: "prediction list \<Rightarrow> nat \<Rightarrow> prediction list" where
  "history ps uid =
     take 5 (rev (sort_key (\<lambda>p. datetime_key (timestamp p))
                    (filter (\<lambda>p. user_id p = uid) ps)))"

definition dashboard :: "user option \<Rightarrow> 'f state \<Rightarrow> response" where
  "dashboard current_user st =
     (case current_user of
        None \<Rightarrow> Redirect ''login''
      | Some cu \<Rightarrow> Dashboard_page (full_name cu) (history (predictions st) (id_u cu)))"

subsection \<open>Requests in sequence\<close>

text \<open>
  A request arrives with what the process finds around it: the files on disk, the
  clock, the logged-in user. A run of the process handles requests one after another
  on the state the last one left.
\<close>

datatype route =
    Predict_house form
  | Predict_loan form
  | Download_report nat
  | Dashboard

record 'f request =
  storage :: "'f storage"
  utcnow :: datetime
  current_user :: "user option"
  route :: route

definition handle :: "'f pyrt \<Rightarrow> 'f request \<Rightarrow> 'f state \<Rightarrow> response \<times> 'f state" where
  "handle rt rq st =
     (case route rq of
        Predict_house frm \<Rightarrow> predict_house rt (storage rq) (utcnow rq) (current_user rq) frm st
      | Predict_loan frm \<Rightarrow> predict_loan rt (storage rq) (utcnow rq) (current_user rq) frm st
      | Download_report i \<Rightarrow> (download_report rt (current_user rq) i st, st)
      | Dashboard \<Rightarrow> (dashboard (current_user rq) st, st))"

fun run :: "'f pyrt \<Rightarrow> 'f request list \<Rightarrow> 'f state \<Rightarrow> 'f state" where
  "run rt [] st = st"
| "run rt (rq # rqs) st = run rt rqs (snd (handle rt rq st))"

subsection \<open>Names for what the handlers compute\<close>

text \<open>
  The row \<open>predict_house\<close> inserts for the parsed \<open>data\<close> \<open>d\<close> and the first prediction
  \<open>p0\<close>, and the row \<open>predict_loan\<close> inserts; both as \<open>add_prediction\<close> builds them.
\<close>

definition house_row ::
  "'f pyrt \<Rightarrow> datetime \<Rightarrow> user \<Rightarrow> 'f house_data \<Rightarrow> 'f pynum \<Rightarrow> prediction list \<Rightarrow> prediction" where
  "house_row rt now cu d p0 ps =
     \<lparr>id_p = next_id ps, type = ''house'', input_json = json_dumps rt (house_items d),
      result_text = ''$'' @ format_2f rt p0, confidence = 94.2, timestamp = now,
      user_id = id_u cu\<rparr>"

definition loan_row ::
  "'f pyrt \<Rightarrow> datetime \<Rightarrow> user \<Rightarrow> 'f loan_data \<Rightarrow> 'f pynum \<Rightarrow> prediction list \<Rightarrow> prediction" where
  "loan_row rt now cu d p0 ps =
     \<lparr>id_p = next_id ps, type = ''loan'', input_json = json_dumps rt (loan_items d),
      result_text = (if equals_one rt p0 then approved_label else flagged_label),
      confidence = 94.2, timestamp = now, user_id = id_u cu\<rparr>"

text \<open>The model a request runs with, if any: the cached one, else the one on disk.\<close>

definition model_in_effect :: "'f model option \<Rightarrow> 'f artifact \<Rightarrow> 'f model option" where
  "model_in_effect cached a =
     (case cached of
        Some m \<Rightarrow> Some m
      | None \<Rightarrow> (case a of Pickle m \<Rightarrow> Some m | _ \<Rightarrow> None))"

section \<open>A concrete runtime and concrete requests\<close>

text \<open>
  The examples below run the handlers on a runtime whose floats are the whole numbers.
  Each of its functions agrees with Python on the inputs the examples use:
  \<open>float_demo\<close> reads an unsigned decimal integer and rejects every other string (Python
  accepts more: signs, fractions, exponents, blanks around the number; none occurs
  below, and the rejected strings used below, \<open>abc\<close> and the empty string, Python
  rejects too); \<open>str_exn_demo\<close> gives the message of \<open>float\<close>'s ValueError for a
  string without quotes in it, and the fixed message of werkzeug's key error;
  \<open>format_2f_demo\<close>, \<open>json_float_demo\<close> print whole numbers below \<open>10^16\<close>;
  \<open>json_string_demo\<close> writes a string of plain ASCII without quotes or backslashes;
  \<open>json_items_demo\<close> reads back the flat objects \<open>json_dumps\<close> writes from such values;
  \<open>str_float_demo\<close> prints a non-negative number with one decimal place.
\<close>

fun parse_digits :: "nat \<Rightarrow> string \<Rightarrow> nat option" where
  "parse_digits acc [] = Some acc"
| "parse_digits acc (c # cs) =
     (if 48 \<le> (of_char c :: nat) \<and> (of_char c :: nat) \<le> 57
      then parse_digits (10 * acc + ((of_char c :: nat) - 48)) cs else None)"

definition float_demo :: "string \<Rightarrow> nat option" where
  "float_demo s = (if s = [] then None else parse_digits 0 s)"

definition str_exn_demo :: "exn \<Rightarrow> string" where
  "str_exn_demo e =
     (case e of
        BadRequestKeyError k \<Rightarrow>
          ''400 Bad Request: The browser (or proxy) sent a request ''
          @ ''that this server could not understand.''
      | ValueError s \<Rightarrow> ''could not convert string to float: '' @ [CHR 0x27] @ s @ [CHR 0x27]
      | IndexError \<Rightarrow> ''index 0 is out of bounds for axis 0 with size 0''
      | RaisedError msg \<Rightarrow> msg)"

fun group3 :: "string \<Rightarrow> string" where
  "group3 (a # b # c # d # r) = a # b # c # CHR '','' # group3 (d # r)"
| "group3 r = r"

definition whole :: "nat pynum \<Rightarrow> nat" where
  "whole x = (case x of PyFloat n \<Rightarrow> n | PyInt k \<Rightarrow> nat k)"

definition format_2f_demo :: "nat pynum \<Rightarrow> string" where
  "format_2f_demo x = rev (group3 (rev (digits (whole x)))) @ ''.00''"

definition json_float_demo :: "nat \<Rightarrow> string" where
  "json_float_demo n = digits n @ ''.0''"

definition json_string_demo :: "string \<Rightarrow> string" where
  "json_string_demo s = [CHR 0x22] @ s @ [CHR 0x22]"

fun split_on :: "char \<Rightarrow> string \<Rightarrow> string \<Rightarrow> string list" where
  "split_on a acc [] = [rev acc]"
| "split_on a acc [c] = [rev (c # acc)]"
| "split_on a acc (c # d # cs) =
     (if c = a \<and> d = CHR '' '' then rev acc # split_on a [] cs
      else split_on a (c # acc) (d # cs))"

definition unquote :: "string \<Rightarrow> string" where
  "unquote s =
     (if 2 \<le> length s \<and> hd s = CHR 0x22 \<and> last s = CHR 0x22 then butlast (tl s) else s)"

definition json_items_demo :: "string \<Rightarrow> exn + (string \<times> string) list" where
  "json_items_demo t =
     (if 2 \<le> length t \<and> hd t = CHR ''{'' \<and> last t = CHR ''}'' then
        (let body = butlast (tl t) in
         if body = [] then Inr []
         else Inr (map (\<lambda>kv. case split_on CHR '':'' [] kv of
                           k # v # _ \<Rightarrow> (unquote k, unquote v)
                         | _ \<Rightarrow> (kv, []))
                    (split_on CHR '','' [] body)))
      else Inl (RaisedError ''Expecting value: line 1 column 1 (char 0)''))"

definition str_float_demo :: "real \<Rightarrow> string" where
  "str_float_demo r =
     (let k = nat \<lfloor>r * 10\<rfloor> in digits (k div 10) @ ''.'' @ digits (k mod 10))"

definition demo_rt :: "nat pyrt" where
  "demo_rt =
     \<lparr>float_py = float_demo, float_of_int = nat, str_exn = str_exn_demo,
      format_2f = format_2f_demo, json_float = json_float_demo,
      json_string = json_string_demo, json_items = json_items_demo,
      str_float = str_float_demo\<rparr>"

text \<open>Two users, the requests of the scenarios, and the states they meet.\<close>

definition alice :: user where
  "alice = \<lparr>id_u = 1, username = ''alice'', email = ''alice@example.com'',
            password_hash = ''pbkdf2'', full_name = ''Alice Smith''\<rparr>"

definition bob :: user where
  "bob = \<lparr>id_u = 2, username = ''bob'', email = ''bob@example.com'',
          password_hash = ''pbkdf2'', full_name = ''Bob Jones''\<rparr>"

definition house_form :: form where
  "house_form =
     [(''bedrooms'', ''3''), (''bathrooms'', ''2''), (''flat_area'', ''1800''),
      (''lot_area'', ''5000''), (''condition'', ''4''), (''grade'', ''7''),
      (''zipcode'', ''98001'')]"

definition loan_form :: form where
  "loan_form =
     [(''applicant_income'', ''5000''), (''coapplicant_income'', ''0''),
      (''loan_amount'', ''120''), (''loan_term'', ''360''), (''credit_history'', ''1''),
      (''property_area'', ''Rural''), (''married'', ''Yes''), (''education'', ''Graduate'')]"

definition loan_form_data :: "nat loan_data" where
  "loan_form_data =
     \<lparr>applicant_income = 5000, coapplicant_income = 0, loan_amount = 120, loan_term = 360,
      credit_history = 1, property_area = ''Rural'', married = ''Yes'',
      education = ''Graduate''\<rparr>"

definition house_form_data :: "nat house_data" where
  "house_form_data =
     \<lparr>bedrooms = 3, bathrooms = 2, flat_area = 1800, lot_area = 5000, condition = 4,
      grade = 7, zipcode = 98001\<rparr>"

definition st0 :: "nat state" where
  "st0 = \<lparr>house_model = None, loan_model = None, predictions = []\<rparr>"

subsection \<open>The required numeric fields\<close>

definition house_keys :: "string list" where
  "house_keys = [''bedrooms'', ''bathrooms'', ''flat_area'', ''lot_area'', ''condition'',
                 ''grade'', ''zipcode'']"

definition loan_numeric_keys :: "string list" where
  "loan_numeric_keys = [''applicant_income'', ''coapplicant_income'', ''loan_amount'',
                        ''loan_term'', ''credit_history'']"

subsection \<open>Models, files, forms and requests of the examples\<close>

text \<open>
  Models that answer every row with one fixed prediction, the files that hold them, forms
  that differ from the scenario's in one raw value, two instants, and the states and
  requests the examples run.
\<close>

definition no_files :: "nat storage" where
  "no_files = (\<lambda>path. Absent)"

definition house_model_demo :: "nat model" where
  "house_model_demo = (\<lambda>row. Inr [PyFloat 450000])"

definition loan_model_one :: "nat model" where
  "loan_model_one = (\<lambda>row. Inr [PyInt 1])"

definition loan_model_two :: "nat model" where
  "loan_model_two = (\<lambda>row. Inr [PyInt 2])"

definition demo_files :: "nat storage" where
  "demo_files =
     (\<lambda>path. if path = HOUSE_MODEL_PATH then Pickle house_model_demo
             else if path = LOAN_MODEL_PATH then Pickle loan_model_one else Absent)"

definition house_form_zero :: form where
  "house_form_zero =
     [(''bedrooms'', ''03''), (''bathrooms'', ''2''), (''flat_area'', ''1800''),
      (''lot_area'', ''5000''), (''condition'', ''4''), (''grade'', ''7''),
      (''zipcode'', ''98001'')]"

definition house_form_a :: form where
  "house_form_a =
     [(''bedrooms'', ''abc''), (''bathrooms'', ''2''), (''flat_area'', ''1800''),
      (''lot_area'', ''5000''), (''condition'', ''4''), (''grade'', ''7''),
      (''zipcode'', ''98001'')]"

definition house_form_b :: form where
  "house_form_b =
     [(''bedrooms'', ''3''), (''bathrooms'', ''abc''), (''flat_area'', ''1800''),
      (''lot_area'', ''5000''), (''condition'', ''4''), (''grade'', ''7''),
      (''zipcode'', ''98001'')]"

definition loan_form_a :: form where
  "loan_form_a =
     [(''applicant_income'', ''5000''), (''coapplicant_income'', ''0''),
      (''loan_amount'', ''''), (''loan_term'', ''360''), (''credit_history'', ''1''),
      (''property_area'', ''Rural''), (''married'', ''Yes''), (''education'', ''Graduate'')]"

definition t0 :: datetime where
  "t0 = \<lparr>year = 2026, month = 11, day = 4, hour = 8, minute = 0, second = 0, microsecond = 0\<rparr>"

definition t1 :: datetime where
  "t1 = \<lparr>year = 2026, month = 11, day = 4, hour = 8, minute = 1, second = 30, microsecond = 0\<rparr>"

definition st_one :: "nat state" where
  "st_one = \<lparr>house_model = None, loan_model = Some loan_model_one, predictions = []\<rparr>"

definition st_two :: "nat state" where
  "st_two = \<lparr>house_model = None, loan_model = Some loan_model_two, predictions = []\<rparr>"

definition row1 :: prediction where
  "row1 = house_row demo_rt t0 alice house_form_data (PyFloat 450000) []"

definition st1 :: "nat state" where
  "st1 = \<lparr>house_model = Some house_model_demo, loan_model = None, predictions = [row1]\<rparr>"

definition rq_house :: "nat request" where
  "rq_house = \<lparr>storage = demo_files, utcnow = t0, current_user = Some alice,
                route = Predict_house house_form\<rparr>"

definition rq_house_offline :: "nat request" where
  "rq_house_offline = \<lparr>storage = no_files, utcnow = t0, current_user = Some alice,
                        route = Predict_house house_form\<rparr>"

definition rq_loan :: "nat request" where
  "rq_loan = \<lparr>storage = demo_files, utcnow = t1, current_user = Some bob,
               route = Predict_loan loan_form\<rparr>"

definition rq_report :: "nat request" where
  "rq_report = \<lparr>storage = demo_files, utcnow = t1, current_user = Some alice,
                 route = Download_report 1\<rparr>"

definition rq_dashboard :: "nat request" where
  "rq_dashboard = \<lparr>storage = demo_files, utcnow = t1, current_user = Some alice,
                    route = Dashboard\<rparr>"

definition row2 :: prediction where
  "row2 = loan_row demo_rt t1 bob loan_form_data (PyInt 1) [row1]"

definition st2 :: "nat state" where
  "st2 = \<lparr>house_model = Some house_model_demo, loan_model = Some loan_model_one,
          predictions = [row1, row2]\<rparr>"

section \<open>Auxiliary facts\<close>

subsection \<open>How the handlers unfold\<close>

lemma and_then_Inr_iff:
  "and_then r f = Inr y \<longleftrightarrow> (\<exists>x. r = Inr x \<and> f x = Inr y)"
  by (cases r) (simp_all add: and_then_def)

lemma and_then_Inl_iff:
  "and_then r f = Inl e \<longleftrightarrow> r = Inl e \<or> (\<exists>x. r = Inr x \<and> f x = Inl e)"
  by (cases r) (simp_all add: and_then_def)

lemma loan_data_Inr:
  assumes "loan_data rt frm = Inr d"
  shows "float_field rt frm ''applicant_income'' = Inr (applicant_income d)"
    and "float_field rt frm ''coapplicant_income'' = Inr (coapplicant_income d)"
    and "float_field rt frm ''loan_amount'' = Inr (loan_amount d)"
    and "float_field rt frm ''loan_term'' = Inr (loan_term d)"
    and "float_field rt frm ''credit_history'' = Inr (credit_history d)"
    and "form_get frm ''property_area'' = Inr (property_area d)"
    and "form_get frm ''married'' = Inr (married d)"
    and "form_get frm ''education'' = Inr (education d)"
  using assms unfolding loan_data_def and_then_Inr_iff by auto

lemma form_get_Inr: "form_get frm k = Inr v \<longleftrightarrow> map_of frm k = Some v"
  by (simp add: form_get_def split: option.splits)

lemma area_code:
  "dict_get area_map pa 0 =
     (if pa = ''Urban'' then 0 else if pa = ''Semiurban'' then 1 else if pa = ''Rural'' then 2 else 0)"
  by (simp add: dict_get_def area_map_def)

lemma subscript0_Inr: "subscript0 xs = Inr x \<longleftrightarrow> (\<exists>rest. xs = x # rest)"
  by (cases xs) (auto simp: subscript0_def)

lemma house_try_Inr:
  "house_try rt now cu frm m ps = Inr (resp, ps') \<longleftrightarrow>
     (\<exists>d p0 rest. house_data rt frm = Inr d \<and> m (house_values d) = Inr (p0 # rest) \<and>
        resp = Result_page (''$'' @ format_2f rt p0) ''Real Estate Appraisal'' ''house''
                 house_explain (next_id ps) \<and>
        ps' = ps @ [house_row rt now cu d p0 ps])"
  unfolding house_try_def and_then_Inr_iff subscript0_Inr
  by (auto simp: add_prediction_def house_row_def Let_def)

lemma loan_try_Inr:
  "loan_try rt now cu frm m ps = Inr (resp, ps') \<longleftrightarrow>
     (\<exists>d p0 rest. loan_data rt frm = Inr d \<and>
        m (np_array rt (loan_features d)) = Inr (p0 # rest) \<and>
        resp = Result_page (if equals_one rt p0 then approved_label else flagged_label)
                 ''Loan Eligibility Analysis'' ''loan'' loan_explain (next_id ps) \<and>
        ps' = ps @ [loan_row rt now cu d p0 ps])"
  unfolding loan_try_def and_then_Inr_iff subscript0_Inr
  by (auto simp: add_prediction_def loan_row_def Let_def)

lemma house_try_Inl_data: "house_data rt frm = Inl e \<Longrightarrow> house_try rt now cu frm m ps = Inl e"
  by (simp add: house_try_def and_then_def)

lemma loan_try_Inl_data: "loan_data rt frm = Inl e \<Longrightarrow> loan_try rt now cu frm m ps = Inl e"
  by (simp add: loan_try_def and_then_def)

lemma house_request_cases:
  "(\<exists>e. house_try rt now cu frm m (predictions st) = Inl e \<and>
        house_request rt now cu frm m st =
          (Result_error (''Data processing error: '' @ str_exn rt e), st)) \<or>
   (\<exists>d p0 rest. house_data rt frm = Inr d \<and> m (house_values d) = Inr (p0 # rest) \<and>
        house_request rt now cu frm m st =
          (Result_page (''$'' @ format_2f rt p0) ''Real Estate Appraisal'' ''house''
             house_explain (next_id (predictions st)),
           st\<lparr>predictions := predictions st @ [house_row rt now cu d p0 (predictions st)]\<rparr>))"
proof (cases "house_try rt now cu frm m (predictions st)")
  case (Inl e)
  then show ?thesis by (simp add: house_request_def)
next
  case (Inr r)
  obtain resp ps' where r: "r = (resp, ps')" by (cases r)
  have t: "house_try rt now cu frm m (predictions st) = Inr (resp, ps')"
    using Inr r by simp
  then obtain d p0 rest where
    "house_data rt frm = Inr d" "m (house_values d) = Inr (p0 # rest)"
    "resp = Result_page (''$'' @ format_2f rt p0) ''Real Estate Appraisal'' ''house''
              house_explain (next_id (predictions st))"
    "ps' = predictions st @ [house_row rt now cu d p0 (predictions st)]"
    unfolding house_try_Inr by blast
  moreover have "house_request rt now cu frm m st = (resp, st\<lparr>predictions := ps'\<rparr>)"
    using t by (simp add: house_request_def)
  ultimately show ?thesis by blast
qed

lemma loan_request_cases:
  "(\<exists>e. loan_try rt now cu frm m (predictions st) = Inl e \<and>
        loan_request rt now cu frm m st =
          (Result_error (''Analysis engine error: '' @ str_exn rt e), st)) \<or>
   (\<exists>d p0 rest. loan_data rt frm = Inr d \<and>
        m (np_array rt (loan_features d)) = Inr (p0 # rest) \<and>
        loan_request rt now cu frm m st =
          (Result_page (if equals_one rt p0 then approved_label else flagged_label)
             ''Loan Eligibility Analysis'' ''loan'' loan_explain (next_id (predictions st)),
           st\<lparr>predictions := predictions st @ [loan_row rt now cu d p0 (predictions st)]\<rparr>))"
proof (cases "loan_try rt now cu frm m (predictions st)")
  case (Inl e)
  then show ?thesis by (simp add: loan_request_def)
next
  case (Inr r)
  obtain resp ps' where r: "r = (resp, ps')" by (cases r)
  have t: "loan_try rt now cu frm m (predictions st) = Inr (resp, ps')"
    using Inr r by simp
  then obtain d p0 rest where
    "loan_data rt frm = Inr d" "m (np_array rt (loan_features d)) = Inr (p0 # rest)"
    "resp = Result_page (if equals_one rt p0 then approved_label else flagged_label)
              ''Loan Eligibility Analysis'' ''loan'' loan_explain (next_id (predictions st))"
    "ps' = predictions st @ [loan_row rt now cu d p0 (predictions st)]"
    unfolding loan_try_Inr by blast
  moreover have "loan_request rt now cu frm m st = (resp, st\<lparr>predictions := ps'\<rparr>)"
    using t by (simp add: loan_request_def)
  ultimately show ?thesis by blast
qed

lemma house_model_same: "house_model st = v \<Longrightarrow> st\<lparr>house_model := v\<rparr> = st"
  by (cases st) simp

lemma loan_model_same: "loan_model st = v \<Longrightarrow> st\<lparr>loan_model := v\<rparr> = st"
  by (cases st) simp

lemma predict_house_run:
  assumes "model_in_effect (house_model st) (fs HOUSE_MODEL_PATH) = Some m"
  shows "predict_house rt fs now (Some cu) frm st =
           house_request rt now cu frm m (st\<lparr>house_model := Some m\<rparr>)"
  using assms
  by (auto simp: predict_house_def model_in_effect_def load_model_def house_model_same
           split: option.splits artifact.splits)

lemma predict_loan_run:
  assumes "model_in_effect (loan_model st) (fs LOAN_MODEL_PATH) = Some m"
  shows "predict_loan rt fs now (Some cu) frm st =
           loan_request rt now cu frm m (st\<lparr>loan_model := Some m\<rparr>)"
  using assms
  by (auto simp: predict_loan_def model_in_effect_def load_model_def loan_model_same
           split: option.splits artifact.splits)

lemma predict_house_norun:
  assumes "model_in_effect (house_model st) (fs HOUSE_MODEL_PATH) = None"
  shows "predict_house rt fs now (Some cu) frm st =
           ((case fs HOUSE_MODEL_PATH of
               Corrupt e \<Rightarrow> Uncaught e
             | _ \<Rightarrow> Result_error ''System Upgrade in Progress: House Model currently offline.''),
            st)"
  using assms
  by (auto simp: predict_house_def model_in_effect_def load_model_def
           split: option.splits artifact.splits)

lemma predict_loan_norun:
  assumes "model_in_effect (loan_model st) (fs LOAN_MODEL_PATH) = None"
  shows "predict_loan rt fs now (Some cu) frm st =
           ((case fs LOAN_MODEL_PATH of
               Corrupt e \<Rightarrow> Uncaught e
             | _ \<Rightarrow> Result_error ''System Upgrade in Progress: Loan Engine currently offline.''),
            st)"
  using assms
  by (auto simp: predict_loan_def model_in_effect_def load_model_def
           split: option.splits artifact.splits)

lemma loan_form_parses: "loan_data demo_rt loan_form = Inr loan_form_data"
  by (simp add: loan_data_def and_then_def float_field_def form_get_def demo_rt_def
        float_demo_def loan_form_def loan_form_data_def)

lemma house_form_parses: "house_data demo_rt house_form = Inr house_form_data"
  by (simp add: house_data_def and_then_def float_field_def form_get_def demo_rt_def
        float_demo_def house_form_def house_form_data_def)

lemma house_data_Inr:
  assumes "house_data rt frm = Inr d"
  shows "\<forall>k\<in>set house_keys. \<exists>x. float_field rt frm k = Inr x"
  using assms unfolding house_data_def and_then_Inr_iff house_keys_def by auto

lemma house_data_Inl:
  assumes "house_data rt frm = Inl e"
  shows "\<exists>k\<in>set house_keys. float_field rt frm k = Inl e"
  using assms unfolding house_data_def and_then_Inl_iff house_keys_def by auto

lemma loan_data_numeric_Inr:
  assumes "loan_data rt frm = Inr d"
  shows "\<forall>k\<in>set loan_numeric_keys. \<exists>x. float_field rt frm k = Inr x"
  using assms unfolding loan_data_def and_then_Inr_iff loan_numeric_keys_def by auto

lemma loan_data_Inl:
  assumes "loan_data rt frm = Inl e"
  shows "(\<exists>k\<in>set loan_numeric_keys. float_field rt frm k = Inl e) \<or>
         (\<forall>k\<in>set loan_numeric_keys. \<exists>x. float_field rt frm k = Inr x)"
  using assms unfolding loan_data_def and_then_Inl_iff
  by (elim disjE exE conjE) (simp_all add: loan_numeric_keys_def)

lemma float_field_Inl:
  "float_field rt frm k = Inl e \<Longrightarrow>
     (map_of frm k = None \<and> e = BadRequestKeyError k) \<or>
     (\<exists>s. map_of frm k = Some s \<and> float_py rt s = None \<and> e = ValueError s)"
  by (auto simp: float_field_def form_get_def split: option.splits)

lemma house_items_parsed:
  assumes "house_data rt frm = Inr d"
  shows "\<forall>(k, v)\<in>set (house_items d). \<exists>x. v = JFloat x \<and> float_field rt frm k = Inr x"
  using assms unfolding house_data_def and_then_Inr_iff by (auto simp: house_items_def)

lemma loan_items_parsed:
  assumes "loan_data rt frm = Inr d"
  shows "\<forall>(k, v)\<in>set (loan_items d).
           (\<exists>x. v = JFloat x \<and> float_field rt frm k = Inr x) \<or>
           (\<exists>s. v = JStr s \<and> map_of frm k = Some s)"
  using loan_data_Inr [OF assms] by (auto simp: loan_items_def form_get_Inr)

lemma predict_house_cases:
  assumes "predict_house rt fs now cuo frm st = (resp, st')"
  shows "(predictions st' = predictions st \<and> (\<forall>a b c d e. resp \<noteq> Result_page a b c d e)) \<or>
         (\<exists>cu m d p0 rest. cuo = Some cu \<and>
            model_in_effect (house_model st) (fs HOUSE_MODEL_PATH) = Some m \<and>
            house_data rt frm = Inr d \<and> m (house_values d) = Inr (p0 # rest) \<and>
            resp = Result_page (''$'' @ format_2f rt p0) ''Real Estate Appraisal'' ''house''
                     house_explain (next_id (predictions st)) \<and>
            st' = st\<lparr>house_model := Some m,
                     predictions := predictions st @ [house_row rt now cu d p0 (predictions st)]\<rparr>)"
proof (cases cuo)
  case None
  with assms show ?thesis by (auto simp: predict_house_def)
next
  case (Some cu)
  show ?thesis
  proof (cases "model_in_effect (house_model st) (fs HOUSE_MODEL_PATH)")
    case None
    from predict_house_norun [where st=st and fs=fs, OF None] assms Some show ?thesis
      by (auto split: artifact.splits)
  next
    case me: (Some m)
    note run = predict_house_run [where st=st and fs=fs, OF me, of rt now cu frm]
    from house_request_cases [of rt now cu frm m "st\<lparr>house_model := Some m\<rparr>"]
    show ?thesis
    proof
      assume "\<exists>e. house_try rt now cu frm m (predictions (st\<lparr>house_model := Some m\<rparr>)) = Inl e \<and>
        house_request rt now cu frm m (st\<lparr>house_model := Some m\<rparr>) =
          (Result_error (''Data processing error: '' @ str_exn rt e), st\<lparr>house_model := Some m\<rparr>)"
      with run assms Some show ?thesis by auto
    next
      assume "\<exists>d p0 rest. house_data rt frm = Inr d \<and> m (house_values d) = Inr (p0 # rest) \<and>
        house_request rt now cu frm m (st\<lparr>house_model := Some m\<rparr>) =
          (Result_page (''$'' @ format_2f rt p0) ''Real Estate Appraisal'' ''house''
             house_explain (next_id (predictions (st\<lparr>house_model := Some m\<rparr>))),
           st\<lparr>house_model := Some m\<rparr>\<lparr>predictions := predictions (st\<lparr>house_model := Some m\<rparr>) @
              [house_row rt now cu d p0 (predictions (st\<lparr>house_model := Some m\<rparr>))]\<rparr>)"
      with run assms Some me show ?thesis by auto
    qed
  qed
qed

lemma predict_loan_cases:
  assumes "predict_loan rt fs now cuo frm st = (resp, st')"
  shows "(predictions st' = predictions st \<and> (\<forall>a b c d e. resp \<noteq> Result_page a b c d e)) \<or>
         (\<exists>cu m d p0 rest. cuo = Some cu \<and>
            model_in_effect (loan_model st) (fs LOAN_MODEL_PATH) = Some m \<and>
            loan_data rt frm = Inr d \<and> m (np_array rt (loan_features d)) = Inr (p0 # rest) \<and>
            resp = Result_page (if equals_one rt p0 then approved_label else flagged_label)
                     ''Loan Eligibility Analysis'' ''loan'' loan_explain
                     (next_id (predictions st)) \<and>
            st' = st\<lparr>loan_model := Some m,
                     predictions := predictions st @ [loan_row rt now cu d p0 (predictions st)]\<rparr>)"
proof (cases cuo)
  case None
  with assms show ?thesis by (auto simp: predict_loan_def)
next
  case (Some cu)
  show ?thesis
  proof (cases "model_in_effect (loan_model st) (fs LOAN_MODEL_PATH)")
    case None
    from predict_loan_norun [where st=st and fs=fs, OF None] assms Some show ?thesis
      by (auto split: artifact.splits)
  next
    case me: (Some m)
    note run = predict_loan_run [where st=st and fs=fs, OF me, of rt now cu frm]
    from loan_request_cases [of rt now cu frm m "st\<lparr>loan_model := Some m\<rparr>"]
    show ?thesis
    proof
      assume "\<exists>e. loan_try rt now cu frm m (predictions (st\<lparr>loan_model := Some m\<rparr>)) = Inl e \<and>
        loan_request rt now cu frm m (st\<lparr>loan_model := Some m\<rparr>) =
          (Result_error (''Analysis engine error: '' @ str_exn rt e), st\<lparr>loan_model := Some m\<rparr>)"
      with run assms Some show ?thesis by auto
    next
      assume "\<exists>d p0 rest. loan_data rt frm = Inr d \<and>
        m (np_array rt (loan_features d)) = Inr (p0 # rest) \<and>
        loan_request rt now cu frm m (st\<lparr>loan_model := Some m\<rparr>) =
          (Result_page (if equals_one rt p0 then approved_label else flagged_label)
             ''Loan Eligibility Analysis'' ''loan'' loan_explain
             (next_id (predictions (st\<lparr>loan_model := Some m\<rparr>))),
           st\<lparr>loan_model := Some m\<rparr>\<lparr>predictions := predictions (st\<lparr>loan_model := Some m\<rparr>) @
              [loan_row rt now cu d p0 (predictions (st\<lparr>loan_model := Some m\<rparr>))]\<rparr>)"
      with run assms Some me show ?thesis by auto
    qed
  qed
qed

lemma predict_house_ok:
  assumes "model_in_effect (house_model st) (fs HOUSE_MODEL_PATH) = Some m"
    and "house_data rt frm = Inr d"
    and "m (house_values d) = Inr (p0 # rest)"
  shows "predict_house rt fs now (Some cu) frm st =
           (Result_page (''$'' @ format_2f rt p0) ''Real Estate Appraisal'' ''house''
              house_explain (next_id (predictions st)),
            st\<lparr>house_model := Some m,
               predictions := predictions st @ [house_row rt now cu d p0 (predictions st)]\<rparr>)"
proof -
  have "house_try rt now cu frm m (predictions st) =
          Inr (Result_page (''$'' @ format_2f rt p0) ''Real Estate Appraisal'' ''house''
                 house_explain (next_id (predictions st)),
               predictions st @ [house_row rt now cu d p0 (predictions st)])"
    unfolding house_try_Inr using assms(2,3) by blast
  then have "house_request rt now cu frm m (st\<lparr>house_model := Some m\<rparr>) =
          (Result_page (''$'' @ format_2f rt p0) ''Real Estate Appraisal'' ''house''
             house_explain (next_id (predictions st)),
           st\<lparr>house_model := Some m,
              predictions := predictions st @ [house_row rt now cu d p0 (predictions st)]\<rparr>)"
    by (simp add: house_request_def)
  then show ?thesis
    using predict_house_run [where st=st and fs=fs, OF assms(1), of rt now cu frm] by simp
qed

lemma predict_loan_ok:
  assumes "model_in_effect (loan_model st) (fs LOAN_MODEL_PATH) = Some m"
    and "loan_data rt frm = Inr d"
    and "m (np_array rt (loan_features d)) = Inr (p0 # rest)"
  shows "predict_loan rt fs now (Some cu) frm st =
           (Result_page (if equals_one rt p0 then approved_label else flagged_label)
              ''Loan Eligibility Analysis'' ''loan'' loan_explain (next_id (predictions st)),
            st\<lparr>loan_model := Some m,
               predictions := predictions st @ [loan_row rt now cu d p0 (predictions st)]\<rparr>)"
proof -
  have "loan_try rt now cu frm m (predictions st) =
          Inr (Result_page (if equals_one rt p0 then approved_label else flagged_label)
                 ''Loan Eligibility Analysis'' ''loan'' loan_explain (next_id (predictions st)),
               predictions st @ [loan_row rt now cu d p0 (predictions st)])"
    unfolding loan_try_Inr using assms(2,3) by blast
  then have "loan_request rt now cu frm m (st\<lparr>loan_model := Some m\<rparr>) =
          (Result_page (if equals_one rt p0 then approved_label else flagged_label)
             ''Loan Eligibility Analysis'' ''loan'' loan_explain (next_id (predictions st)),
           st\<lparr>loan_model := Some m,
              predictions := predictions st @ [loan_row rt now cu d p0 (predictions st)]\<rparr>)"
    by (simp add: loan_request_def)
  then show ?thesis
    using predict_loan_run [where st=st and fs=fs, OF assms(1), of rt now cu frm] by simp
qed

subsection \<open>The table only grows\<close>

lemma fold_max_ge: "(a::nat) \<le> fold max xs a"
proof (induction xs arbitrary: a)
  case Nil
  show ?case by simp
next
  case (Cons x xs)
  have "a \<le> max x a" by simp
  also have "\<dots> \<le> fold max xs (max x a)" by (rule Cons.IH)
  finally show ?case by simp
qed

lemma fold_max_mem: "x \<in> set xs \<Longrightarrow> (x::nat) \<le> fold max xs a"
proof (induction xs arbitrary: a)
  case Nil
  then show ?case by simp
next
  case (Cons y ys)
  show ?case
  proof (cases "x = y")
    case True
    have "x \<le> max y a" using True by simp
    also have "\<dots> \<le> fold max ys (max y a)" by (rule fold_max_ge)
    finally show ?thesis by simp
  next
    case False
    with Cons.prems have "x \<in> set ys" by simp
    from Cons.IH [OF this] show ?thesis by simp
  qed
qed

lemma next_id_fresh: "p \<in> set ps \<Longrightarrow> id_p p < next_id ps"
  unfolding next_id_def using fold_max_mem [of "id_p p" "map id_p ps" 0] by auto

lemma next_id_Nil: "next_id [] = 1"
  by (simp add: next_id_def)

lemma find_append_Some: "find P xs = Some r \<Longrightarrow> find P (xs @ ys) = Some r"
  by (induction xs) (auto split: if_splits)

lemma query_get_append: "query_get ps i = Some r \<Longrightarrow> query_get (ps @ new) i = Some r"
  unfolding query_get_def by (rule find_append_Some)

lemma query_get_unique:
  assumes "distinct (map id_p ps)" and "query_get ps i = Some r" and "p \<in> set ps" and "id_p p = i"
  shows "p = r"
proof -
  from assms(2) have "r \<in> set ps" "id_p r = i"
    unfolding query_get_def by (auto simp: find_Some_iff)
  moreover from assms(1) have "inj_on id_p (set ps)" by (simp add: distinct_map)
  ultimately show ?thesis using assms(3,4) by (auto dest: inj_onD)
qed

lemma history_subset: "set (history ps uid) \<subseteq> set ps"
proof -
  have "set (history ps uid) \<subseteq> set (rev (sort_key (\<lambda>p. datetime_key (timestamp p)) (filter (\<lambda>p. user_id p = uid) ps)))"
    unfolding history_def by (rule set_take_subset)
  then show ?thesis by auto
qed

lemma history_owner: "p \<in> set (history ps uid) \<Longrightarrow> user_id p = uid"
proof -
  assume "p \<in> set (history ps uid)"
  then have "p \<in> set (rev (sort_key (\<lambda>p. datetime_key (timestamp p)) (filter (\<lambda>p. user_id p = uid) ps)))"
    unfolding history_def by (rule in_set_takeD)
  then show ?thesis by simp
qed

text \<open>One request adds at most one row, with a fresh key and the default confidence.\<close>

lemma handle_appends:
  "\<exists>new. predictions (snd (handle rt rq st)) = predictions st @ new \<and> length new \<le> 1 \<and>
         (\<forall>p\<in>set new. id_p p = next_id (predictions st) \<and> confidence p = 94.2)"
proof (cases "route rq")
  case (Predict_house frm)
  obtain resp st' where r: "predict_house rt (storage rq) (utcnow rq) (current_user rq) frm st = (resp, st')"
    by (cases "predict_house rt (storage rq) (utcnow rq) (current_user rq) frm st")
  from predict_house_cases [OF r] show ?thesis
  proof
    assume "predictions st' = predictions st \<and> (\<forall>a b c d e. resp \<noteq> Result_page a b c d e)"
    with r Predict_house show ?thesis by (simp add: handle_def)
  next
    assume "\<exists>cu m d p0 rest. current_user rq = Some cu \<and>
            model_in_effect (house_model st) (storage rq HOUSE_MODEL_PATH) = Some m \<and>
            house_data rt frm = Inr d \<and> m (house_values d) = Inr (p0 # rest) \<and>
            resp = Result_page (''$'' @ format_2f rt p0) ''Real Estate Appraisal'' ''house''
                     house_explain (next_id (predictions st)) \<and>
            st' = st\<lparr>house_model := Some m,
                     predictions := predictions st @ [house_row rt (utcnow rq) cu d p0 (predictions st)]\<rparr>"
    then obtain cu d p0 where
      "predictions st' = predictions st @ [house_row rt (utcnow rq) cu d p0 (predictions st)]"
      by auto
    with r Predict_house show ?thesis by (simp add: handle_def house_row_def)
  qed
next
  case (Predict_loan frm)
  obtain resp st' where r: "predict_loan rt (storage rq) (utcnow rq) (current_user rq) frm st = (resp, st')"
    by (cases "predict_loan rt (storage rq) (utcnow rq) (current_user rq) frm st")
  from predict_loan_cases [OF r] show ?thesis
  proof
    assume "predictions st' = predictions st \<and> (\<forall>a b c d e. resp \<noteq> Result_page a b c d e)"
    with r Predict_loan show ?thesis by (simp add: handle_def)
  next
    assume "\<exists>cu m d p0 rest. current_user rq = Some cu \<and>
            model_in_effect (loan_model st) (storage rq LOAN_MODEL_PATH) = Some m \<and>
            loan_data rt frm = Inr d \<and> m (np_array rt (loan_features d)) = Inr (p0 # rest) \<and>
            resp = Result_page (if equals_one rt p0 then approved_label else flagged_label)
                     ''Loan Eligibility Analysis'' ''loan'' loan_explain
                     (next_id (predictions st)) \<and>
            st' = st\<lparr>loan_model := Some m,
                     predictions := predictions st @ [loan_row rt (utcnow rq) cu d p0 (predictions st)]\<rparr>"
    then obtain cu d p0 where
      "predictions st' = predictions st @ [loan_row rt (utcnow rq) cu d p0 (predictions st)]"
      by auto
    with r Predict_loan show ?thesis by (simp add: handle_def loan_row_def)
  qed
next
  case (Download_report i)
  then show ?thesis by (simp add: handle_def)
next
  case Dashboard
  then show ?thesis by (simp add: handle_def)
qed

lemma handle_distinct:
  assumes "distinct (map id_p (predictions st))"
  shows "distinct (map id_p (predictions (snd (handle rt rq st))))"
proof -
  from handle_appends [of rt rq st] obtain new where
    n: "predictions (snd (handle rt rq st)) = predictions st @ new" "length new \<le> 1"
       "\<forall>p\<in>set new. id_p p = next_id (predictions st) \<and> confidence p = 94.2"
    by blast
  show ?thesis
  proof (cases new)
    case Nil
    with n assms show ?thesis by simp
  next
    case (Cons q qs)
    with n(2) have qs: "qs = []" by simp
    from n(3) Cons have "id_p q = next_id (predictions st)" by simp
    then have "id_p q \<notin> id_p ` set (predictions st)"
      using next_id_fresh [of _ "predictions st"] by force
    with n(1) Cons qs assms show ?thesis by simp
  qed
qed

lemma run_appends:
  "\<exists>new. predictions (run rt rqs st) = predictions st @ new \<and>
         (\<forall>p\<in>set new. confidence p = 94.2)"
proof (induction rqs arbitrary: st)
  case Nil
  show ?case by simp
next
  case (Cons rq rqs)
  from handle_appends [of rt rq st] obtain n1 where
    a: "predictions (snd (handle rt rq st)) = predictions st @ n1"
       "\<forall>p\<in>set n1. id_p p = next_id (predictions st) \<and> confidence p = 94.2"
    by blast
  from Cons.IH [of "snd (handle rt rq st)"] obtain n2 where
    b: "predictions (run rt rqs (snd (handle rt rq st))) = predictions (snd (handle rt rq st)) @ n2"
       "\<forall>p\<in>set n2. confidence p = 94.2"
    by blast
  from a b have "predictions (run rt (rq # rqs) st) = predictions st @ (n1 @ n2)"
    by simp
  moreover from a b have "\<forall>p\<in>set (n1 @ n2). confidence p = 94.2" by auto
  ultimately show ?case by blast
qed

lemma run_distinct:
  "distinct (map id_p (predictions st)) \<Longrightarrow> distinct (map id_p (predictions (run rt rqs st)))"
  by (induction rqs arbitrary: st) (auto intro: handle_distinct)

subsection \<open>The cached models\<close>

lemma handle_house_model:
  "house_model st = Some m \<Longrightarrow> house_model (snd (handle rt rq st)) = Some m"
  by (cases "route rq")
     (auto simp: handle_def predict_house_def predict_loan_def house_request_def
        loan_request_def load_model_def split: option.splits sum.splits artifact.splits)

lemma handle_loan_model:
  "loan_model st = Some m \<Longrightarrow> loan_model (snd (handle rt rq st)) = Some m"
  by (cases "route rq")
     (auto simp: handle_def predict_house_def predict_loan_def house_request_def
        loan_request_def load_model_def split: option.splits sum.splits artifact.splits)

lemma run_house_model:
  "house_model st = Some m \<Longrightarrow> house_model (run rt rqs st) = Some m"
  by (induction rqs arbitrary: st) (auto intro: handle_house_model)

lemma run_loan_model:
  "loan_model st = Some m \<Longrightarrow> loan_model (run rt rqs st) = Some m"
  by (induction rqs arbitrary: st) (auto intro: handle_loan_model)

lemma house_request_house_model:
  "house_model (snd (house_request rt now cu frm m st)) = house_model st"
  by (auto simp: house_request_def split: sum.splits)

lemma loan_request_loan_model:
  "loan_model (snd (loan_request rt now cu frm m st)) = loan_model st"
  by (auto simp: loan_request_def split: sum.splits)

subsection \<open>Evaluating the examples\<close>

lemma digits_numeral:
  "digits (numeral k) =
     (if (numeral k :: nat) < 10 then [''0123456789'' ! numeral k]
      else digits (numeral k div 10) @ [''0123456789'' ! (numeral k mod 10)])"
  by (rule digits.simps)

lemma digits_0: "digits 0 = ''0''"
  by (simp add: digits.simps)

lemma digits_1: "digits 1 = ''1''"
  by (simp add: digits.simps)

lemma digits_Suc_0: "digits (Suc 0) = ''1''"
  by (simp add: digits.simps)

lemmas digits_eval = digits_numeral digits_0 digits_1 digits_Suc_0

lemma format_450000: "format_2f demo_rt (PyFloat 450000) = ''450,000.00''"
  by (simp add: demo_rt_def format_2f_demo_def whole_def digits_eval)

lemma loan_snapshot_text:
  "json_dumps demo_rt (loan_items loan_form_data) =
   ''{'' @ [CHR 0x22] @ ''applicant_income'' @ [CHR 0x22] @ '': 5000.0, ''
   @ [CHR 0x22] @ ''coapplicant_income'' @ [CHR 0x22] @ '': 0.0, ''
   @ [CHR 0x22] @ ''loan_amount'' @ [CHR 0x22] @ '': 120.0, ''
   @ [CHR 0x22] @ ''loan_term'' @ [CHR 0x22] @ '': 360.0, ''
   @ [CHR 0x22] @ ''credit_history'' @ [CHR 0x22] @ '': 1.0, ''
   @ [CHR 0x22] @ ''property_area'' @ [CHR 0x22] @ '': '' @ [CHR 0x22] @ ''Rural'' @ [CHR 0x22] @ '', ''
   @ [CHR 0x22] @ ''married'' @ [CHR 0x22] @ '': '' @ [CHR 0x22] @ ''Yes'' @ [CHR 0x22] @ '', ''
   @ [CHR 0x22] @ ''education'' @ [CHR 0x22] @ '': '' @ [CHR 0x22] @ ''Graduate'' @ [CHR 0x22] @ ''}''"
  by (simp add: json_dumps_def loan_items_def loan_form_data_def json_value_def demo_rt_def
        json_float_demo_def json_string_demo_def digits_eval)

lemma house_snapshot_text:
  "json_dumps demo_rt (house_items house_form_data) =
   ''{'' @ [CHR 0x22] @ ''bedrooms'' @ [CHR 0x22] @ '': 3.0, ''
   @ [CHR 0x22] @ ''bathrooms'' @ [CHR 0x22] @ '': 2.0, ''
   @ [CHR 0x22] @ ''flat_area'' @ [CHR 0x22] @ '': 1800.0, ''
   @ [CHR 0x22] @ ''lot_area'' @ [CHR 0x22] @ '': 5000.0, ''
   @ [CHR 0x22] @ ''condition'' @ [CHR 0x22] @ '': 4.0, ''
   @ [CHR 0x22] @ ''grade'' @ [CHR 0x22] @ '': 7.0, ''
   @ [CHR 0x22] @ ''zipcode'' @ [CHR 0x22] @ '': 98001.0}''"
  by (simp add: json_dumps_def house_items_def house_form_data_def json_value_def demo_rt_def
        json_float_demo_def json_string_demo_def digits_eval)

lemma house_demo_request:
  "predict_house demo_rt demo_files t0 (Some alice) house_form st0 =
     (Result_page ''$450,000.00'' ''Real Estate Appraisal'' ''house'' house_explain 1, st1)"
proof -
  have "model_in_effect (house_model st0) (demo_files HOUSE_MODEL_PATH) = Some house_model_demo"
    by (simp add: model_in_effect_def st0_def demo_files_def)
  from predict_house_ok [where st=st0 and fs=demo_files and m=house_model_demo and rt=demo_rt
      and frm=house_form and d=house_form_data and ?p0.0="PyFloat 450000" and rest="[]"
      and now=t0 and cu=alice, OF this house_form_parses]
  show ?thesis
    by (simp add: house_model_demo_def format_450000 st0_def st1_def row1_def next_id_Nil)
qed

subsection \<open>The examples, step by step\<close>

lemma house_form_a_fails: "house_data demo_rt house_form_a = Inl (ValueError ''abc'')"
  by (simp add: house_data_def and_then_def float_field_def form_get_def demo_rt_def
        float_demo_def house_form_a_def)

lemma house_form_b_fails: "house_data demo_rt house_form_b = Inl (ValueError ''abc'')"
  by (simp add: house_data_def and_then_def float_field_def form_get_def demo_rt_def
        float_demo_def house_form_b_def)

lemma loan_form_a_fails: "loan_data demo_rt loan_form_a = Inl (ValueError '''')"
  by (simp add: loan_data_def and_then_def float_field_def form_get_def demo_rt_def
        float_demo_def loan_form_a_def)

lemma house_form_zero_parses: "house_data demo_rt house_form_zero = Inr house_form_data"
  by (simp add: house_data_def and_then_def float_field_def form_get_def demo_rt_def
        float_demo_def house_form_zero_def house_form_data_def)

lemma demo_files_house:
  "model_in_effect (house_model st0) (demo_files HOUSE_MODEL_PATH) = Some house_model_demo"
  by (simp add: model_in_effect_def st0_def demo_files_def)

lemma demo_files_loan:
  "model_in_effect (loan_model st0) (demo_files LOAN_MODEL_PATH) = Some loan_model_one"
  by (simp add: model_in_effect_def st0_def demo_files_def LOAN_MODEL_PATH_def
        HOUSE_MODEL_PATH_def)

lemma value_error_text:
  "str_exn demo_rt (ValueError ''abc'') =
     ''could not convert string to float: '' @ [CHR 0x27] @ ''abc'' @ [CHR 0x27]"
  by (simp add: demo_rt_def str_exn_demo_def)

lemma next_id_row1: "next_id [row1] = 2"
  by (simp add: next_id_def row1_def house_row_def)

lemma handle_rq_house: 
  "handle demo_rt rq_house st0 =
     (Result_page ''$450,000.00'' ''Real Estate Appraisal'' ''house'' house_explain 1, st1)"
  by (simp add: handle_def rq_house_def house_demo_request)

lemma handle_rq_house_offline:
  "handle demo_rt rq_house_offline st0 =
     (Result_error ''System Upgrade in Progress: House Model currently offline.'', st0)"
  by (simp add: handle_def rq_house_offline_def predict_house_def load_model_def no_files_def
        st0_def)

lemma loan_demo_request:
  "predict_loan demo_rt demo_files t1 (Some bob) loan_form st1 =
     (Result_page approved_label ''Loan Eligibility Analysis'' ''loan'' loan_explain 2, st2)"
proof -
  have a: "model_in_effect (loan_model st1) (demo_files LOAN_MODEL_PATH) = Some loan_model_one"
    by (simp add: model_in_effect_def st1_def demo_files_def LOAN_MODEL_PATH_def
          HOUSE_MODEL_PATH_def)
  have b: "loan_model_one (np_array demo_rt (loan_features loan_form_data)) = Inr [PyInt 1]"
    by (simp add: loan_model_one_def)
  from predict_loan_ok [where st=st1 and fs=demo_files and m=loan_model_one and rt=demo_rt
      and frm=loan_form and d=loan_form_data and ?p0.0="PyInt 1" and rest="[]"
      and now=t1 and cu=bob, OF a loan_form_parses b]
  show ?thesis
    by (simp add: equals_one_def st1_def st2_def row2_def next_id_row1)
qed

lemma handle_rq_loan:
  "handle demo_rt rq_loan st1 =
     (Result_page approved_label ''Loan Eligibility Analysis'' ''loan'' loan_explain 2, st2)"
  by (simp add: handle_def rq_loan_def loan_demo_request)

lemma handle_rq_report: "snd (handle demo_rt rq_report st) = st"
  by (simp add: handle_def rq_report_def)

lemma handle_rq_dashboard: "snd (handle demo_rt rq_dashboard st) = st"
  by (simp add: handle_def rq_dashboard_def)

lemma run_two: "run demo_rt [rq_house, rq_loan] st0 = st2"
  by (simp add: handle_rq_house handle_rq_loan)

lemma run_later: "run demo_rt [rq_loan, rq_report, rq_dashboard] st1 = st2"
  by (simp add: handle_rq_loan handle_rq_report handle_rq_dashboard)

lemma predictions_st2: "predictions st2 = [row1, row2]"
  by (simp add: st2_def)

lemma json_items_demo_dumps: "\<exists>items. json_items_demo (json_dumps rt its) = Inr items"
  by (simp add: json_items_demo_def json_dumps_def Let_def)

lemma report_canvas_demo: "\<exists>ops. report_canvas demo_rt row1 client = Inr ops"
proof -
  obtain items where "json_items demo_rt (input_json row1) = Inr items"
    using json_items_demo_dumps [of demo_rt "house_items house_form_data"]
    by (auto simp: row1_def house_row_def demo_rt_def)
  then show ?thesis
    by (simp add: report_canvas_def and_then_def Let_def split: prod.splits)
qed

section \<open>The claims\<close>

subsection \<open>The encoding of the loan request\<close>

text \<open>
  C1. Whenever the loan request builds (\<open>data\<close> is parsed), the last three entries of
  \<open>features\<close> are: for the raw \<open>property_area\<close>, 0 for Urban, 1 for Semiurban, 2 for
  Rural and 0 for every other string; 1 for \<open>married\<close> exactly when the raw value is
  Yes; 1 for \<open>education\<close> exactly when the raw value is Graduate.
\<close>

theorem loan_encoding:
  assumes "loan_data rt frm = Inr d"
  shows "\<exists>pa ma ed.
           map_of frm ''property_area'' = Some pa \<and>
           map_of frm ''married'' = Some ma \<and>
           map_of frm ''education'' = Some ed \<and>
           drop 5 (loan_features d) =
             [PyInt (if pa = ''Urban'' then 0 else if pa = ''Semiurban'' then 1
                     else if pa = ''Rural'' then 2 else 0),
              PyInt (if ma = ''Yes'' then 1 else 0),
              PyInt (if ed = ''Graduate'' then 1 else 0)]"
proof -
  have "map_of frm ''property_area'' = Some (property_area d)"
    and "map_of frm ''married'' = Some (married d)"
    and "map_of frm ''education'' = Some (education d)"
    using loan_data_Inr(6-8) [OF assms] by (simp_all add: form_get_Inr)
  moreover have "drop 5 (loan_features d) =
      [PyInt (if property_area d = ''Urban'' then 0 else if property_area d = ''Semiurban'' then 1
              else if property_area d = ''Rural'' then 2 else 0),
       PyInt (if married d = ''Yes'' then 1 else 0),
       PyInt (if education d = ''Graduate'' then 1 else 0)]"
    by (simp add: loan_features_def area_code)
  ultimately show ?thesis by blast
qed

text \<open>The scenario: Rural, Yes, Graduate gives the tail 2, 1, 1.\<close>

theorem loan_encoding_witness:
  "loan_data demo_rt loan_form = Inr loan_form_data \<and>
   drop 5 (loan_features loan_form_data) = [PyInt 2, PyInt 1, PyInt 1]"
proof -
  have h: "loan_data demo_rt loan_form = Inr loan_form_data"
    by (rule loan_form_parses)
  from loan_encoding [OF h] obtain pa ma ed where
    "map_of loan_form ''property_area'' = Some pa"
    "map_of loan_form ''married'' = Some ma"
    "map_of loan_form ''education'' = Some ed"
    and t: "drop 5 (loan_features loan_form_data) =
      [PyInt (if pa = ''Urban'' then 0 else if pa = ''Semiurban'' then 1
              else if pa = ''Rural'' then 2 else 0),
       PyInt (if ma = ''Yes'' then 1 else 0),
       PyInt (if ed = ''Graduate'' then 1 else 0)]"
    by blast
  then have "pa = ''Rural''" "ma = ''Yes''" "ed = ''Graduate''"
    by (simp_all add: loan_form_def)
  with t h show ?thesis by simp
qed

subsection \<open>The label of a loan prediction\<close>

text \<open>
  C2, as the code has it. When the loan request is parsed and the model returns a first
  prediction \<open>p0\<close>, the response is the result page and the row is written, with the
  Approved label when \<open>p0 == 1\<close> (the int 1 or the float 1.0) and the Flagged for Review
  label for every other value, 0 included. No value of \<open>p0\<close> is reported as a fault.
\<close>

theorem loan_label:
  assumes "model_in_effect (loan_model st) (fs LOAN_MODEL_PATH) = Some m"
    and "loan_data rt frm = Inr d"
    and "m (np_array rt (loan_features d)) = Inr (p0 # rest)"
  shows "predict_loan rt fs now (Some cu) frm st =
           (Result_page (if equals_one rt p0 then approved_label else flagged_label)
              ''Loan Eligibility Analysis'' ''loan'' loan_explain (next_id (predictions st)),
            st\<lparr>loan_model := Some m,
               predictions := predictions st @ [loan_row rt now cu d p0 (predictions st)]\<rparr>) \<and>
         result_text (loan_row rt now cu d p0 (predictions st)) =
           (if equals_one rt p0 then approved_label else flagged_label) \<and>
         (equals_one rt p0 \<longleftrightarrow> p0 = PyInt 1 \<or> p0 = PyFloat (float_of_int rt 1))"
proof -
  have "equals_one rt p0 \<longleftrightarrow> p0 = PyInt 1 \<or> p0 = PyFloat (float_of_int rt 1)"
    by (cases p0) (auto simp: equals_one_def)
  with predict_loan_ok [where st=st and fs=fs, OF assms, of now cu] show ?thesis
    by (simp add: loan_row_def)
qed

text \<open>A model that answers 1: the Approved label.\<close>

theorem loan_label_witness:
  "predict_loan demo_rt no_files t0 (Some alice) loan_form st_one =
     (Result_page approved_label ''Loan Eligibility Analysis'' ''loan'' loan_explain 1,
      st_one\<lparr>predictions := [loan_row demo_rt t0 alice loan_form_data (PyInt 1) []]\<rparr>) \<and>
   result_text (loan_row demo_rt t0 alice loan_form_data (PyInt 1) []) = approved_label"
proof -
  have a: "model_in_effect (loan_model st_one) (no_files LOAN_MODEL_PATH) = Some loan_model_one"
    by (simp add: model_in_effect_def st_one_def)
  have b: "loan_model_one (np_array demo_rt (loan_features loan_form_data)) = Inr [PyInt 1]"
    by (simp add: loan_model_one_def)
  from loan_label [where st=st_one and fs=no_files and m=loan_model_one and rt=demo_rt
      and frm=loan_form and d=loan_form_data and ?p0.0="PyInt 1" and rest="[]"
      and now=t0 and cu=alice, OF a loan_form_parses b]
  show ?thesis
    by (simp add: equals_one_def st_one_def next_id_Nil)
qed

text \<open>
  A model that answers 2: the claim asks for a fault; the code answers with the result
  page, labels the request Flagged for Review and writes the row.
\<close>

theorem loan_output_two_counterexample:
  "predict_loan demo_rt no_files t0 (Some alice) loan_form st_two =
     (Result_page flagged_label ''Loan Eligibility Analysis'' ''loan'' loan_explain 1,
      st_two\<lparr>predictions := [loan_row demo_rt t0 alice loan_form_data (PyInt 2) []]\<rparr>) \<and>
   result_text (loan_row demo_rt t0 alice loan_form_data (PyInt 2) []) = flagged_label"
proof -
  have a: "model_in_effect (loan_model st_two) (no_files LOAN_MODEL_PATH) = Some loan_model_two"
    by (simp add: model_in_effect_def st_two_def)
  have b: "loan_model_two (np_array demo_rt (loan_features loan_form_data)) = Inr [PyInt 2]"
    by (simp add: loan_model_two_def)
  from predict_loan_ok [where st=st_two and fs=no_files and m=loan_model_two and rt=demo_rt
      and frm=loan_form and d=loan_form_data and ?p0.0="PyInt 2" and rest="[]"
      and now=t0 and cu=alice, OF a loan_form_parses b]
  show ?thesis
    by (simp add: equals_one_def st_two_def next_id_Nil loan_row_def)
qed

subsection \<open>Errors come before the row is written\<close>

text \<open>
  C3. A prediction request that ends on the error page leaves the table of predictions
  as it was, for either kind. A request that finds no cached model and no file on disk
  ends on the page saying the model is offline and leaves the whole state as it was; a
  request whose \<open>data\<close> fails to parse ends on the page with the exception's text, and
  only the model variable has changed (the model loaded for it).
\<close>

theorem error_before_record:
  "(predict_house rt fs now cuo frm st = (Result_error msg, st') \<longrightarrow>
       predictions st' = predictions st) \<and>
   (predict_loan rt fs now cuo frm st = (Result_error msg, st') \<longrightarrow>
       predictions st' = predictions st) \<and>
   (house_model st = None \<and> fs HOUSE_MODEL_PATH = Absent \<longrightarrow>
       predict_house rt fs now (Some cu) frm st =
         (Result_error ''System Upgrade in Progress: House Model currently offline.'', st)) \<and>
   (loan_model st = None \<and> fs LOAN_MODEL_PATH = Absent \<longrightarrow>
       predict_loan rt fs now (Some cu) frm st =
         (Result_error ''System Upgrade in Progress: Loan Engine currently offline.'', st)) \<and>
   (model_in_effect (house_model st) (fs HOUSE_MODEL_PATH) = Some m \<and>
    house_data rt frm = Inl e \<longrightarrow>
       predict_house rt fs now (Some cu) frm st =
         (Result_error (''Data processing error: '' @ str_exn rt e), st\<lparr>house_model := Some m\<rparr>)) \<and>
   (model_in_effect (loan_model st) (fs LOAN_MODEL_PATH) = Some m \<and>
    loan_data rt frm = Inl e \<longrightarrow>
       predict_loan rt fs now (Some cu) frm st =
         (Result_error (''Analysis engine error: '' @ str_exn rt e), st\<lparr>loan_model := Some m\<rparr>))"
proof -
  have a: "predict_house rt fs now cuo frm st = (Result_error msg, st') \<longrightarrow>
       predictions st' = predictions st"
    using predict_house_cases [of rt fs now cuo frm st "Result_error msg" st'] by auto
  have b: "predict_loan rt fs now cuo frm st = (Result_error msg, st') \<longrightarrow>
       predictions st' = predictions st"
    using predict_loan_cases [of rt fs now cuo frm st "Result_error msg" st'] by auto
  have c: "house_model st = None \<and> fs HOUSE_MODEL_PATH = Absent \<longrightarrow>
       predict_house rt fs now (Some cu) frm st =
         (Result_error ''System Upgrade in Progress: House Model currently offline.'', st)"
    by (simp add: predict_house_def load_model_def)
  have d: "loan_model st = None \<and> fs LOAN_MODEL_PATH = Absent \<longrightarrow>
       predict_loan rt fs now (Some cu) frm st =
         (Result_error ''System Upgrade in Progress: Loan Engine currently offline.'', st)"
    by (simp add: predict_loan_def load_model_def)
  have e: "model_in_effect (house_model st) (fs HOUSE_MODEL_PATH) = Some m \<and>
    house_data rt frm = Inl e \<longrightarrow>
       predict_house rt fs now (Some cu) frm st =
         (Result_error (''Data processing error: '' @ str_exn rt e), st\<lparr>house_model := Some m\<rparr>)"
    by (auto simp: predict_house_run [where st=st and fs=fs] house_request_def house_try_Inl_data)
  have f: "model_in_effect (loan_model st) (fs LOAN_MODEL_PATH) = Some m \<and>
    loan_data rt frm = Inl e \<longrightarrow>
       predict_loan rt fs now (Some cu) frm st =
         (Result_error (''Analysis engine error: '' @ str_exn rt e), st\<lparr>loan_model := Some m\<rparr>)"
    by (auto simp: predict_loan_run [where st=st and fs=fs] loan_request_def loan_try_Inl_data)
  from a b c d e f show ?thesis by blast
qed

text \<open>
  The scenario: the house request 3, 2, 1800, 5000, 4, 7, 98001 with no model on disk;
  the same for the loan request; and a request of each kind with an unreadable number,
  with the models on disk.
\<close>

theorem error_before_record_witness:
  "predict_house demo_rt no_files t0 (Some alice) house_form st0 =
     (Result_error ''System Upgrade in Progress: House Model currently offline.'', st0) \<and>
   predictions (snd (predict_house demo_rt no_files t0 (Some alice) house_form st0)) = [] \<and>
   predict_loan demo_rt no_files t0 (Some alice) loan_form st0 =
     (Result_error ''System Upgrade in Progress: Loan Engine currently offline.'', st0) \<and>
   predict_house demo_rt demo_files t0 (Some alice) house_form_a st0 =
     (Result_error (''Data processing error: '' @ str_exn demo_rt (ValueError ''abc'')),
      st0\<lparr>house_model := Some house_model_demo\<rparr>) \<and>
   predictions (snd (predict_house demo_rt demo_files t0 (Some alice) house_form_a st0)) = [] \<and>
   predict_loan demo_rt demo_files t0 (Some alice) loan_form_a st0 =
     (Result_error (''Analysis engine error: '' @ str_exn demo_rt (ValueError '''')),
      st0\<lparr>loan_model := Some loan_model_one\<rparr>)"
proof -
  have a: "house_model st0 = None \<and> no_files HOUSE_MODEL_PATH = Absent"
    and b: "loan_model st0 = None \<and> no_files LOAN_MODEL_PATH = Absent"
    by (simp_all add: st0_def no_files_def)
  note t1 = error_before_record [where rt=demo_rt and fs=no_files and now=t0 and cu=alice
      and frm=house_form and st=st0]
  note t2 = error_before_record [where rt=demo_rt and fs=no_files and now=t0 and cu=alice
      and frm=loan_form and st=st0]
  note t3 = error_before_record [where rt=demo_rt and fs=demo_files and now=t0 and cu=alice
      and frm=house_form_a and st=st0 and m=house_model_demo and e="ValueError ''abc''"]
  note t4 = error_before_record [where rt=demo_rt and fs=demo_files and now=t0 and cu=alice
      and frm=loan_form_a and st=st0 and m=loan_model_one and e="ValueError ''''"]
  have h: "predict_house demo_rt no_files t0 (Some alice) house_form st0 =
     (Result_error ''System Upgrade in Progress: House Model currently offline.'', st0)"
    using t1 a by blast
  have l: "predict_loan demo_rt no_files t0 (Some alice) loan_form st0 =
     (Result_error ''System Upgrade in Progress: Loan Engine currently offline.'', st0)"
    using t2 b by blast
  have v: "predict_house demo_rt demo_files t0 (Some alice) house_form_a st0 =
     (Result_error (''Data processing error: '' @ str_exn demo_rt (ValueError ''abc'')),
      st0\<lparr>house_model := Some house_model_demo\<rparr>)"
    using t3 demo_files_house house_form_a_fails by blast
  have w: "predict_loan demo_rt demo_files t0 (Some alice) loan_form_a st0 =
     (Result_error (''Analysis engine error: '' @ str_exn demo_rt (ValueError '''')),
      st0\<lparr>loan_model := Some loan_model_one\<rparr>)"
    using t4 demo_files_loan loan_form_a_fails by blast
  from h l v w show ?thesis by (simp add: st0_def)
qed

subsection \<open>Rows are written once\<close>

text \<open>
  C4. Whatever requests follow, the table is the old table with rows appended: a row
  that \<open>Prediction.query.get(i)\<close> finds is found unchanged after any run of requests,
  and, the keys of the table being distinct, every row with that key in a user's
  history is that row, with all its fields.
\<close>

theorem audit_write_once:
  assumes "query_get (predictions st) i = Some r"
  shows "(\<exists>new. predictions (run rt rqs st) = predictions st @ new) \<and>
         query_get (predictions (run rt rqs st)) i = Some r \<and>
         (distinct (map id_p (predictions st)) \<longrightarrow>
            (\<forall>p\<in>set (history (predictions (run rt rqs st)) uid). id_p p = i \<longrightarrow> p = r))"
proof -
  from run_appends [of rt rqs st] obtain new where
    n: "predictions (run rt rqs st) = predictions st @ new" by blast
  then have q: "query_get (predictions (run rt rqs st)) i = Some r"
    using assms by (simp add: query_get_append)
  have "\<forall>p\<in>set (history (predictions (run rt rqs st)) uid). id_p p = i \<longrightarrow> p = r"
    if d: "distinct (map id_p (predictions st))"
  proof (intro ballI impI)
    fix p
    assume "p \<in> set (history (predictions (run rt rqs st)) uid)" and "id_p p = i"
    then have "p \<in> set (predictions (run rt rqs st))"
      using history_subset by blast
    from query_get_unique [OF run_distinct [OF d] q this \<open>id_p p = i\<close>]
    show "p = r" .
  qed
  with n q show ?thesis by blast
qed

text \<open>
  The row of the first request, after a loan request by another user, a report and a
  dashboard.
\<close>

theorem audit_write_once_witness:
  "query_get (predictions st1) 1 = Some row1 \<and>
   distinct (map id_p (predictions st1)) \<and>
   query_get (predictions (run demo_rt [rq_loan, rq_report, rq_dashboard] st1)) 1 = Some row1 \<and>
   history (predictions (run demo_rt [rq_loan, rq_report, rq_dashboard] st1)) 1 = [row1]"
proof -
  have q: "query_get (predictions st1) 1 = Some row1"
    by (simp add: query_get_def st1_def row1_def house_row_def next_id_Nil)
  have d: "distinct (map id_p (predictions st1))"
    by (simp add: st1_def)
  have h: "history (predictions (run demo_rt [rq_loan, rq_report, rq_dashboard] st1)) 1 = [row1]"
    by (simp only: run_later predictions_st2)
       (simp add: history_def row1_def row2_def house_row_def loan_row_def alice_def bob_def)
  from audit_write_once [OF q, where rt=demo_rt and rqs="[rq_loan, rq_report, rq_dashboard]"
      and uid=1] d h q
  show ?thesis by simp
qed

subsection \<open>Who may download a report\<close>

text \<open>
  C5. For a logged-in user: if no row has the requested key the answer is the 404 abort;
  if the row exists and belongs to another user the answer is the body Unauthorized with
  status 403; if it exists and belongs to the user the answer is the file, or the
  exception raised while drawing it. The file is sent only when the row exists and
  belongs to the user who asks.
\<close>

theorem report_access:
  "(query_get (predictions st) i = None \<longrightarrow>
      download_report rt (Some cu) i st = Abort 404) \<and>
   (query_get (predictions st) i = Some p \<and> user_id p \<noteq> id_u cu \<longrightarrow>
      download_report rt (Some cu) i st = Body ''Unauthorized'' 403) \<and>
   (query_get (predictions st) i = Some p \<and> user_id p = id_u cu \<longrightarrow>
      download_report rt (Some cu) i st =
        (case report_canvas rt p (full_name cu) of
           Inl e \<Rightarrow> Uncaught e
         | Inr ops \<Rightarrow> Send_file ops (''TrustBridge_Report_'' @ digits (id_p p) @ ''.pdf''))) \<and>
   (download_report rt cuo i st = Send_file ops name \<longrightarrow>
      (\<exists>q u. cuo = Some u \<and> query_get (predictions st) i = Some q \<and> user_id q = id_u u))"
  by (auto simp: download_report_def split: option.splits sum.splits if_splits)

text \<open>The first row, asked for under a key that is not there, by Bob, and by its owner.\<close>

theorem report_access_witness:
  "download_report demo_rt (Some alice) 7 st1 = Abort 404 \<and>
   download_report demo_rt (Some bob) 1 st1 = Body ''Unauthorized'' 403 \<and>
   (\<exists>ops. download_report demo_rt (Some alice) 1 st1 =
            Send_file ops ''TrustBridge_Report_1.pdf'')"
proof -
  have q7: "query_get (predictions st1) 7 = None"
    and q1: "query_get (predictions st1) 1 = Some row1"
    by (simp_all add: query_get_def st1_def row1_def house_row_def next_id_Nil)
  have u: "user_id row1 \<noteq> id_u bob" "user_id row1 = id_u alice" "id_p row1 = 1"
    by (simp_all add: row1_def house_row_def alice_def bob_def next_id_Nil)
  note t = report_access [where rt=demo_rt and st=st1]
  have a: "download_report demo_rt (Some alice) 7 st1 = Abort 404"
    using t [where i=7 and cu=alice] q7 by blast
  have b: "download_report demo_rt (Some bob) 1 st1 = Body ''Unauthorized'' 403"
    using t [where i=1 and cu=bob and p=row1] q1 u by blast
  have "download_report demo_rt (Some alice) 1 st1 =
        (case report_canvas demo_rt row1 (full_name alice) of
           Inl e \<Rightarrow> Uncaught e
         | Inr ops \<Rightarrow> Send_file ops (''TrustBridge_Report_'' @ digits (id_p row1) @ ''.pdf''))"
    using t [where i=1 and cu=alice and p=row1] q1 u by blast
  with report_canvas_demo [of "full_name alice"] u(3)
  have c: "\<exists>ops. download_report demo_rt (Some alice) 1 st1 =
            Send_file ops ''TrustBridge_Report_1.pdf''"
    by (auto simp: digits_eval)
  from a b c show ?thesis by blast
qed

text \<open>
  What the file holds are the calls made on the canvas; they are taken from the row and
  the name of the user who asks, and from nothing else of the state. How the PDF library
  turns them into bytes is not part of this theory.
\<close>

lemma download_report_reads:
  assumes "query_get (predictions st) i = query_get (predictions st') i"
    and "id_u cu = id_u cu'" and "full_name cu = full_name cu'"
  shows "download_report rt (Some cu) i st = download_report rt (Some cu') i st'"
  using assms by (simp add: download_report_def split: option.splits)

subsection \<open>What the snapshot holds\<close>

text \<open>
  C7, as the code has it. The row written by a successful request holds
  \<open>json.dumps(data)\<close>: under each numeric key the float that was parsed from the raw
  value, and for a loan, under \<open>property_area\<close>, \<open>married\<close> and \<open>education\<close>, the raw
  strings themselves (not their codes).
\<close>

theorem snapshot_of_data:
  assumes "handle rt rq st = (Result_page text ttl ty ex n, st')"
  shows "\<exists>p. predictions st' = predictions st @ [p] \<and> id_p p = n \<and>
           ((\<exists>frm d. route rq = Predict_house frm \<and> house_data rt frm = Inr d \<and>
                input_json p = json_dumps rt (house_items d) \<and>
                (\<forall>(k, v)\<in>set (house_items d).
                    \<exists>x. v = JFloat x \<and> float_field rt frm k = Inr x)) \<or>
            (\<exists>frm d. route rq = Predict_loan frm \<and> loan_data rt frm = Inr d \<and>
                input_json p = json_dumps rt (loan_items d) \<and>
                (\<forall>(k, v)\<in>set (loan_items d).
                    (\<exists>x. v = JFloat x \<and> float_field rt frm k = Inr x) \<or>
                    (\<exists>s. v = JStr s \<and> map_of frm k = Some s))))"
proof (cases "route rq")
  case (Predict_house frm)
  with assms have r: "predict_house rt (storage rq) (utcnow rq) (current_user rq) frm st =
      (Result_page text ttl ty ex n, st')"
    by (simp add: handle_def)
  from predict_house_cases [OF r] obtain cu d p0 where
    d: "house_data rt frm = Inr d" and
    "n = next_id (predictions st)"
    "predictions st' = predictions st @ [house_row rt (utcnow rq) cu d p0 (predictions st)]"
    by auto
  moreover have "id_p (house_row rt (utcnow rq) cu d p0 (predictions st)) = next_id (predictions st)"
    "input_json (house_row rt (utcnow rq) cu d p0 (predictions st)) = json_dumps rt (house_items d)"
    by (simp_all add: house_row_def)
  ultimately show ?thesis
    using Predict_house house_items_parsed [OF d] by blast
next
  case (Predict_loan frm)
  with assms have r: "predict_loan rt (storage rq) (utcnow rq) (current_user rq) frm st =
      (Result_page text ttl ty ex n, st')"
    by (simp add: handle_def)
  from predict_loan_cases [OF r] obtain cu d p0 where
    d: "loan_data rt frm = Inr d" and
    "n = next_id (predictions st)"
    "predictions st' = predictions st @ [loan_row rt (utcnow rq) cu d p0 (predictions st)]"
    by auto
  moreover have "id_p (loan_row rt (utcnow rq) cu d p0 (predictions st)) = next_id (predictions st)"
    "input_json (loan_row rt (utcnow rq) cu d p0 (predictions st)) = json_dumps rt (loan_items d)"
    by (simp_all add: loan_row_def)
  ultimately show ?thesis
    using Predict_loan loan_items_parsed [OF d] by blast
next
  case (Download_report i)
  with assms show ?thesis
    by (auto simp: handle_def download_report_def split: option.splits sum.splits if_splits)
next
  case Dashboard
  with assms show ?thesis
    by (auto simp: handle_def dashboard_def split: option.splits)
qed

text \<open>
  The loan request of the scenario, after the house request: the raw \<open>5000\<close> is stored
  as \<open>5000.0\<close>, the raw \<open>Rural\<close> as it is.
\<close>

theorem snapshot_of_data_witness:
  "map input_json (predictions (snd (handle demo_rt rq_loan st1))) =
     [json_dumps demo_rt (house_items house_form_data),
      ''{'' @ [CHR 0x22] @ ''applicant_income'' @ [CHR 0x22] @ '': 5000.0, ''
      @ [CHR 0x22] @ ''coapplicant_income'' @ [CHR 0x22] @ '': 0.0, ''
      @ [CHR 0x22] @ ''loan_amount'' @ [CHR 0x22] @ '': 120.0, ''
      @ [CHR 0x22] @ ''loan_term'' @ [CHR 0x22] @ '': 360.0, ''
      @ [CHR 0x22] @ ''credit_history'' @ [CHR 0x22] @ '': 1.0, ''
      @ [CHR 0x22] @ ''property_area'' @ [CHR 0x22] @ '': '' @ [CHR 0x22] @ ''Rural''
      @ [CHR 0x22] @ '', '' @ [CHR 0x22] @ ''married'' @ [CHR 0x22] @ '': '' @ [CHR 0x22]
      @ ''Yes'' @ [CHR 0x22] @ '', '' @ [CHR 0x22] @ ''education'' @ [CHR 0x22] @ '': ''
      @ [CHR 0x22] @ ''Graduate'' @ [CHR 0x22] @ ''}'']"
proof -
  from snapshot_of_data [OF handle_rq_loan] obtain p d where
    p: "predictions st2 = predictions st1 @ [p]"
    and "route rq_loan = Predict_loan loan_form \<longrightarrow>
           loan_data demo_rt loan_form = Inr d \<and> input_json p = json_dumps demo_rt (loan_items d)"
    by (auto simp: rq_loan_def)
  then have "input_json p = json_dumps demo_rt (loan_items loan_form_data)"
    using loan_form_parses by (simp add: rq_loan_def)
  moreover have "predictions (snd (handle demo_rt rq_loan st1)) = predictions st2"
    by (simp only: handle_rq_loan snd_conv)
  moreover have "predictions st1 = [row1]"
    by (simp add: st1_def)
  moreover have "input_json row1 = json_dumps demo_rt (house_items house_form_data)"
    by (simp add: row1_def house_row_def)
  ultimately show ?thesis
    using p by (simp add: loan_snapshot_text)
qed

text \<open>
  Two submissions that differ in a raw value, \<open>3\<close> and \<open>03\<close>, leave the same snapshot,
  and the snapshot holds neither string but the float \<open>3.0\<close>.
\<close>

theorem snapshot_counterexample:
  "map_of house_form ''bedrooms'' = Some ''3'' \<and>
   map_of house_form_zero ''bedrooms'' = Some ''03'' \<and>
   map input_json
     (predictions (snd (predict_house demo_rt demo_files t0 (Some alice) house_form st0))) =
     [''{'' @ [CHR 0x22] @ ''bedrooms'' @ [CHR 0x22] @ '': 3.0, ''
      @ [CHR 0x22] @ ''bathrooms'' @ [CHR 0x22] @ '': 2.0, ''
      @ [CHR 0x22] @ ''flat_area'' @ [CHR 0x22] @ '': 1800.0, ''
      @ [CHR 0x22] @ ''lot_area'' @ [CHR 0x22] @ '': 5000.0, ''
      @ [CHR 0x22] @ ''condition'' @ [CHR 0x22] @ '': 4.0, ''
      @ [CHR 0x22] @ ''grade'' @ [CHR 0x22] @ '': 7.0, ''
      @ [CHR 0x22] @ ''zipcode'' @ [CHR 0x22] @ '': 98001.0}''] \<and>
   map input_json
     (predictions (snd (predict_house demo_rt demo_files t0 (Some alice) house_form_zero st0))) =
   map input_json
     (predictions (snd (predict_house demo_rt demo_files t0 (Some alice) house_form st0)))"
proof -
  have m: "house_model_demo (house_values house_form_data) = Inr [PyFloat 450000]"
    by (simp add: house_model_demo_def)
  have "predictions (snd (predict_house demo_rt demo_files t0 (Some alice) house_form st0)) = [row1]"
    by (simp add: house_demo_request st1_def)
  moreover have
    "predictions (snd (predict_house demo_rt demo_files t0 (Some alice) house_form_zero st0)) = [row1]"
    using predict_house_ok [where st=st0 and fs=demo_files and m=house_model_demo and rt=demo_rt
        and frm=house_form_zero and d=house_form_data and ?p0.0="PyFloat 450000" and rest="[]"
        and now=t0 and cu=alice, OF demo_files_house house_form_zero_parses m]
    by (simp add: st0_def row1_def)
  moreover have "input_json row1 = json_dumps demo_rt (house_items house_form_data)"
    by (simp add: row1_def house_row_def)
  ultimately show ?thesis
    by (simp add: house_snapshot_text house_form_def house_form_zero_def)
qed

subsection \<open>A load is retried until it succeeds\<close>

text \<open>
  C8, as the code has it. Once a model variable holds a model it holds that model after
  every run of requests, and a prediction request of that kind no longer depends on the
  files. While the variable is empty, every request of that kind consults the files: it
  ends with the model on disk in the variable, or with the variable still empty when
  there is no readable model; a failed load is not remembered.
\<close>

theorem cache_ready_is_kept:
  "(house_model st = Some m \<longrightarrow>
      house_model (run rt rqs st) = Some m \<and>
      predict_house rt fs now cuo frm st = predict_house rt fs' now cuo frm st) \<and>
   (loan_model st = Some m \<longrightarrow>
      loan_model (run rt rqs st) = Some m \<and>
      predict_loan rt fs now cuo frm st = predict_loan rt fs' now cuo frm st) \<and>
   (house_model st = None \<longrightarrow>
      house_model (snd (predict_house rt fs now (Some cu) frm st)) =
        (case fs HOUSE_MODEL_PATH of Pickle m' \<Rightarrow> Some m' | _ \<Rightarrow> None)) \<and>
   (loan_model st = None \<longrightarrow>
      loan_model (snd (predict_loan rt fs now (Some cu) frm st)) =
        (case fs LOAN_MODEL_PATH of Pickle m' \<Rightarrow> Some m' | _ \<Rightarrow> None))"
proof -
  have a: "house_model st = Some m \<longrightarrow>
      house_model (run rt rqs st) = Some m \<and>
      predict_house rt fs now cuo frm st = predict_house rt fs' now cuo frm st"
    by (auto simp: run_house_model predict_house_def split: option.splits)
  have b: "loan_model st = Some m \<longrightarrow>
      loan_model (run rt rqs st) = Some m \<and>
      predict_loan rt fs now cuo frm st = predict_loan rt fs' now cuo frm st"
    by (auto simp: run_loan_model predict_loan_def split: option.splits)
  have c: "house_model st = None \<longrightarrow>
      house_model (snd (predict_house rt fs now (Some cu) frm st)) =
        (case fs HOUSE_MODEL_PATH of Pickle m' \<Rightarrow> Some m' | _ \<Rightarrow> None)"
    by (auto simp: predict_house_def load_model_def house_request_house_model
          split: artifact.splits)
  have d: "loan_model st = None \<longrightarrow>
      loan_model (snd (predict_loan rt fs now (Some cu) frm st)) =
        (case fs LOAN_MODEL_PATH of Pickle m' \<Rightarrow> Some m' | _ \<Rightarrow> None)"
    by (auto simp: predict_loan_def load_model_def loan_request_loan_model
          split: artifact.splits)
  from a b c d show ?thesis by blast
qed

text \<open>States with a model cached, and the empty state with and without files.\<close>

theorem cache_ready_is_kept_witness:
  "house_model (run demo_rt [rq_house_offline, rq_loan, rq_dashboard] st1) =
     Some house_model_demo \<and>
   predict_house demo_rt no_files t1 (Some alice) house_form st1 =
     predict_house demo_rt demo_files t1 (Some alice) house_form st1 \<and>
   loan_model (run demo_rt [rq_house, rq_loan] st_one) = Some loan_model_one \<and>
   predict_loan demo_rt no_files t1 (Some bob) loan_form st_one =
     predict_loan demo_rt demo_files t1 (Some bob) loan_form st_one \<and>
   house_model (snd (predict_house demo_rt no_files t0 (Some alice) house_form st0)) = None \<and>
   house_model (snd (predict_house demo_rt demo_files t0 (Some alice) house_form st0)) =
     Some house_model_demo \<and>
   loan_model (snd (predict_loan demo_rt no_files t0 (Some alice) loan_form st0)) = None \<and>
   loan_model (snd (predict_loan demo_rt demo_files t0 (Some alice) loan_form st0)) =
     Some loan_model_one"
proof -
  have h1: "house_model st1 = Some house_model_demo" by (simp add: st1_def)
  have l1: "loan_model st_one = Some loan_model_one" by (simp add: st_one_def)
  have h0: "house_model st0 = None" and l0: "loan_model st0 = None"
    by (simp_all add: st0_def)
  note t = cache_ready_is_kept [where rt=demo_rt]
  have a: "house_model (run demo_rt [rq_house_offline, rq_loan, rq_dashboard] st1) =
             Some house_model_demo \<and>
           predict_house demo_rt no_files t1 (Some alice) house_form st1 =
             predict_house demo_rt demo_files t1 (Some alice) house_form st1"
    using t [where st=st1 and m=house_model_demo
        and rqs="[rq_house_offline, rq_loan, rq_dashboard]" and fs=no_files and fs'=demo_files
        and now=t1 and cuo="Some alice" and frm=house_form] h1
    by blast
  have b: "loan_model (run demo_rt [rq_house, rq_loan] st_one) = Some loan_model_one \<and>
           predict_loan demo_rt no_files t1 (Some bob) loan_form st_one =
             predict_loan demo_rt demo_files t1 (Some bob) loan_form st_one"
    using t [where st=st_one and m=loan_model_one and rqs="[rq_house, rq_loan]"
        and fs=no_files and fs'=demo_files and now=t1 and cuo="Some bob" and frm=loan_form] l1
    by blast
  have c: "house_model (snd (predict_house demo_rt no_files t0 (Some alice) house_form st0)) = None"
    using t [where st=st0 and fs=no_files and now=t0 and cu=alice and frm=house_form] h0
    by (simp add: no_files_def)
  have d: "house_model (snd (predict_house demo_rt demo_files t0 (Some alice) house_form st0)) =
             Some house_model_demo"
    using t [where st=st0 and fs=demo_files and now=t0 and cu=alice and frm=house_form] h0
    by (simp add: demo_files_def)
  have e: "loan_model (snd (predict_loan demo_rt no_files t0 (Some alice) loan_form st0)) = None"
    using t [where st=st0 and fs=no_files and now=t0 and cu=alice and frm=loan_form] l0
    by (simp add: no_files_def)
  have f: "loan_model (snd (predict_loan demo_rt demo_files t0 (Some alice) loan_form st0)) =
             Some loan_model_one"
    using t [where st=st0 and fs=demo_files and now=t0 and cu=alice and frm=loan_form] l0
    by (simp add: demo_files_def LOAN_MODEL_PATH_def HOUSE_MODEL_PATH_def)
  from a b c d e f show ?thesis by blast
qed

text \<open>
  A request finds no file and is told the model is offline; the file appears; the next
  request of the same process loads it and succeeds.
\<close>

theorem load_retried_counterexample:
  "handle demo_rt rq_house_offline st0 =
     (Result_error ''System Upgrade in Progress: House Model currently offline.'', st0) \<and>
   house_model (snd (handle demo_rt rq_house_offline st0)) = None \<and>
   handle demo_rt rq_house (snd (handle demo_rt rq_house_offline st0)) =
     (Result_page ''$450,000.00'' ''Real Estate Appraisal'' ''house'' house_explain 1, st1) \<and>
   house_model st1 = Some house_model_demo"
  by (simp add: handle_rq_house_offline handle_rq_house) (simp add: st0_def st1_def)

subsection \<open>A numeric field that is missing or unreadable\<close>

text \<open>
  C9, as the code has it. If some required numeric field of the request is missing or
  does not parse, and a model is at hand, then no \<open>data\<close> is built and the request ends on
  the error page with the text of the exception of one such field: the key error of the
  missing key, or the ValueError of \<open>float\<close>, which carries the raw value. The table is
  as it was. The text names the field only as far as that exception's text does.
\<close>

theorem unparsable_field:
  "((\<exists>k\<in>set house_keys. \<exists>e0. float_field rt frm k = Inl e0) \<and>
    model_in_effect (house_model st) (fs HOUSE_MODEL_PATH) = Some m \<longrightarrow>
      (\<exists>k\<in>set house_keys. \<exists>e.
          float_field rt frm k = Inl e \<and>
          ((map_of frm k = None \<and> e = BadRequestKeyError k) \<or>
           (\<exists>s. map_of frm k = Some s \<and> float_py rt s = None \<and> e = ValueError s)) \<and>
          house_data rt frm = Inl e \<and>
          predict_house rt fs now (Some cu) frm st =
            (Result_error (''Data processing error: '' @ str_exn rt e),
             st\<lparr>house_model := Some m\<rparr>))) \<and>
   ((\<exists>k\<in>set loan_numeric_keys. \<exists>e0. float_field rt frm k = Inl e0) \<and>
    model_in_effect (loan_model st) (fs LOAN_MODEL_PATH) = Some m \<longrightarrow>
      (\<exists>k\<in>set loan_numeric_keys. \<exists>e.
          float_field rt frm k = Inl e \<and>
          ((map_of frm k = None \<and> e = BadRequestKeyError k) \<or>
           (\<exists>s. map_of frm k = Some s \<and> float_py rt s = None \<and> e = ValueError s)) \<and>
          loan_data rt frm = Inl e \<and>
          predict_loan rt fs now (Some cu) frm st =
            (Result_error (''Analysis engine error: '' @ str_exn rt e),
             st\<lparr>loan_model := Some m\<rparr>)))"
proof (intro conjI impI)
  assume h: "(\<exists>k\<in>set house_keys. \<exists>e0. float_field rt frm k = Inl e0) \<and>
    model_in_effect (house_model st) (fs HOUSE_MODEL_PATH) = Some m"
  then obtain k0 e0 where k0: "k0 \<in> set house_keys" "float_field rt frm k0 = Inl e0" by blast
  obtain e where e: "house_data rt frm = Inl e"
  proof (cases "house_data rt frm")
    case (Inl e)
    then show ?thesis by (rule that)
  next
    case (Inr d)
    from house_data_Inr [OF Inr] k0 show ?thesis by auto
  qed
  from house_data_Inl [OF e] obtain k where k: "k \<in> set house_keys" "float_field rt frm k = Inl e"
    by blast
  have "predict_house rt fs now (Some cu) frm st =
      (Result_error (''Data processing error: '' @ str_exn rt e), st\<lparr>house_model := Some m\<rparr>)"
    using h e
    by (auto simp: predict_house_run [where st=st and fs=fs] house_request_def house_try_Inl_data)
  with k e float_field_Inl [OF k(2)]
  show "\<exists>k\<in>set house_keys. \<exists>e.
          float_field rt frm k = Inl e \<and>
          ((map_of frm k = None \<and> e = BadRequestKeyError k) \<or>
           (\<exists>s. map_of frm k = Some s \<and> float_py rt s = None \<and> e = ValueError s)) \<and>
          house_data rt frm = Inl e \<and>
          predict_house rt fs now (Some cu) frm st =
            (Result_error (''Data processing error: '' @ str_exn rt e),
             st\<lparr>house_model := Some m\<rparr>)"
    by blast
next
  assume h: "(\<exists>k\<in>set loan_numeric_keys. \<exists>e0. float_field rt frm k = Inl e0) \<and>
    model_in_effect (loan_model st) (fs LOAN_MODEL_PATH) = Some m"
  then obtain k0 e0 where k0: "k0 \<in> set loan_numeric_keys" "float_field rt frm k0 = Inl e0"
    by blast
  obtain e where e: "loan_data rt frm = Inl e"
  proof (cases "loan_data rt frm")
    case (Inl e)
    then show ?thesis by (rule that)
  next
    case (Inr d)
    from loan_data_numeric_Inr [OF Inr] k0 show ?thesis by auto
  qed
  have "\<exists>k\<in>set loan_numeric_keys. float_field rt frm k = Inl e"
    using loan_data_Inl [OF e] k0 by auto
  then obtain k where k: "k \<in> set loan_numeric_keys" "float_field rt frm k = Inl e"
    by blast
  have "predict_loan rt fs now (Some cu) frm st =
      (Result_error (''Analysis engine error: '' @ str_exn rt e), st\<lparr>loan_model := Some m\<rparr>)"
    using h e
    by (auto simp: predict_loan_run [where st=st and fs=fs] loan_request_def loan_try_Inl_data)
  with k e float_field_Inl [OF k(2)]
  show "\<exists>k\<in>set loan_numeric_keys. \<exists>e.
          float_field rt frm k = Inl e \<and>
          ((map_of frm k = None \<and> e = BadRequestKeyError k) \<or>
           (\<exists>s. map_of frm k = Some s \<and> float_py rt s = None \<and> e = ValueError s)) \<and>
          loan_data rt frm = Inl e \<and>
          predict_loan rt fs now (Some cu) frm st =
            (Result_error (''Analysis engine error: '' @ str_exn rt e),
             st\<lparr>loan_model := Some m\<rparr>)"
    by blast
qed

text \<open>An unreadable \<open>bedrooms\<close>, and an empty \<open>loan_amount\<close>.\<close>

theorem unparsable_field_witness:
  "float_field demo_rt house_form_a ''bedrooms'' = Inl (ValueError ''abc'') \<and>
   predict_house demo_rt demo_files t0 (Some alice) house_form_a st0 =
     (Result_error (''Data processing error: '' @ str_exn demo_rt (ValueError ''abc'')),
      st0\<lparr>house_model := Some house_model_demo\<rparr>) \<and>
   float_field demo_rt loan_form_a ''loan_amount'' = Inl (ValueError '''') \<and>
   predict_loan demo_rt demo_files t0 (Some alice) loan_form_a st0 =
     (Result_error (''Analysis engine error: '' @ str_exn demo_rt (ValueError '''')),
      st0\<lparr>loan_model := Some loan_model_one\<rparr>)"
proof -
  have f1: "float_field demo_rt house_form_a ''bedrooms'' = Inl (ValueError ''abc'')"
    by (simp add: float_field_def form_get_def demo_rt_def float_demo_def house_form_a_def)
  have f2: "float_field demo_rt loan_form_a ''loan_amount'' = Inl (ValueError '''')"
    by (simp add: float_field_def form_get_def demo_rt_def float_demo_def loan_form_a_def)
  have k1: "\<exists>k\<in>set house_keys. \<exists>e0. float_field demo_rt house_form_a k = Inl e0"
    using f1 by (auto simp: house_keys_def)
  have k2: "\<exists>k\<in>set loan_numeric_keys. \<exists>e0. float_field demo_rt loan_form_a k = Inl e0"
    using f2 by (auto simp: loan_numeric_keys_def)
  note t = unparsable_field [where rt=demo_rt and fs=demo_files and now=t0 and cu=alice
      and st=st0]
  from t [where frm=house_form_a and m=house_model_demo] k1 demo_files_house
  obtain e where "house_data demo_rt house_form_a = Inl e"
    "predict_house demo_rt demo_files t0 (Some alice) house_form_a st0 =
       (Result_error (''Data processing error: '' @ str_exn demo_rt e),
        st0\<lparr>house_model := Some house_model_demo\<rparr>)"
    by blast
  with house_form_a_fails have h: "predict_house demo_rt demo_files t0 (Some alice) house_form_a st0 =
       (Result_error (''Data processing error: '' @ str_exn demo_rt (ValueError ''abc'')),
        st0\<lparr>house_model := Some house_model_demo\<rparr>)"
    by simp
  from t [where frm=loan_form_a and m=loan_model_one] k2 demo_files_loan
  obtain e where "loan_data demo_rt loan_form_a = Inl e"
    "predict_loan demo_rt demo_files t0 (Some alice) loan_form_a st0 =
       (Result_error (''Analysis engine error: '' @ str_exn demo_rt e),
        st0\<lparr>loan_model := Some loan_model_one\<rparr>)"
    by blast
  with loan_form_a_fails have l: "predict_loan demo_rt demo_files t0 (Some alice) loan_form_a st0 =
       (Result_error (''Analysis engine error: '' @ str_exn demo_rt (ValueError '''')),
        st0\<lparr>loan_model := Some loan_model_one\<rparr>)"
    by simp
  from f1 f2 h l show ?thesis by blast
qed

text \<open>
  The same unreadable value under \<open>bedrooms\<close> in one request and under \<open>bathrooms\<close> in
  another gives the same page: the value is quoted, the field is not named.
\<close>

theorem field_not_named_counterexample:
  "fst (predict_house demo_rt demo_files t0 (Some alice) house_form_a st0) =
     Result_error (''Data processing error: could not convert string to float: ''
                   @ [CHR 0x27] @ ''abc'' @ [CHR 0x27]) \<and>
   fst (predict_house demo_rt demo_files t0 (Some alice) house_form_b st0) =
     Result_error (''Data processing error: could not convert string to float: ''
                   @ [CHR 0x27] @ ''abc'' @ [CHR 0x27]) \<and>
   float_field demo_rt house_form_a ''bedrooms'' = Inl (ValueError ''abc'') \<and>
   float_field demo_rt house_form_b ''bedrooms'' = Inr 3 \<and>
   float_field demo_rt house_form_b ''bathrooms'' = Inl (ValueError ''abc'')"
proof -
  have "predict_house demo_rt demo_files t0 (Some alice) house_form_a st0 =
      house_request demo_rt t0 alice house_form_a house_model_demo
        (st0\<lparr>house_model := Some house_model_demo\<rparr>)"
    by (rule predict_house_run [where st=st0 and fs=demo_files, OF demo_files_house])
  then have a: "fst (predict_house demo_rt demo_files t0 (Some alice) house_form_a st0) =
      Result_error (''Data processing error: '' @ str_exn demo_rt (ValueError ''abc''))"
    by (simp add: house_request_def house_try_Inl_data [OF house_form_a_fails])
  have "predict_house demo_rt demo_files t0 (Some alice) house_form_b st0 =
      house_request demo_rt t0 alice house_form_b house_model_demo
        (st0\<lparr>house_model := Some house_model_demo\<rparr>)"
    by (rule predict_house_run [where st=st0 and fs=demo_files, OF demo_files_house])
  then have b: "fst (predict_house demo_rt demo_files t0 (Some alice) house_form_b st0) =
      Result_error (''Data processing error: '' @ str_exn demo_rt (ValueError ''abc''))"
    by (simp add: house_request_def house_try_Inl_data [OF house_form_b_fails])
  have c: "float_field demo_rt house_form_a ''bedrooms'' = Inl (ValueError ''abc'')"
    "float_field demo_rt house_form_b ''bedrooms'' = Inr 3"
    "float_field demo_rt house_form_b ''bathrooms'' = Inl (ValueError ''abc'')"
    by (simp_all add: float_field_def form_get_def demo_rt_def float_demo_def
          house_form_a_def house_form_b_def)
  from a b c show ?thesis by (simp add: value_error_text)
qed

subsection \<open>The confidence of a row\<close>

text \<open>
  C10. Every row a run of requests adds to the table has confidence 94.2: both handlers
  leave \<open>confidence\<close> out when they build the row, so the column's default applies.
\<close>

theorem created_confidence:
  "\<exists>new. predictions (run rt rqs st) = predictions st @ new \<and>
         (\<forall>p\<in>set new. confidence p = 94.2)"
  by (rule run_appends)

text \<open>A house request and a loan request on the empty table.\<close>

theorem created_confidence_witness:
  "map confidence (predictions (run demo_rt [rq_house, rq_loan] st0)) = [94.2, 94.2]"
proof -
  from created_confidence [where rt=demo_rt and rqs="[rq_house, rq_loan]" and st=st0]
  obtain new where
    n: "predictions (run demo_rt [rq_house, rq_loan] st0) = predictions st0 @ new"
       "\<forall>p\<in>set new. confidence p = 94.2"
    by blast
  have "predictions st0 = []" by (simp add: st0_def)
  with n(1) have "new = [row1, row2]"
    by (simp only: run_two predictions_st2 append_Nil)
  with n show ?thesis by (simp only: run_two predictions_st2) simp
qed

end
